theory Spec2Isabelle
  imports Main "HOL-Library.AList" "HOL-Library.Log_Nat" "HOL-Library.Word"
begin

section \<open>Signaling server: types (backend/src/types.ts)\<close>

text \<open>
  A connection is identified by the identifier the server assigns to it when it is
  accepted (\<^verbatim>\<open>extWs.id = uuidv4()\<close>). The socket objects are shared between the room
  maps and the event handlers, so they live in a store indexed by that identifier and a
  room's member map holds the identifiers, in the insertion order of the JavaScript
  \<^verbatim>\<open>Map\<close>. \<^verbatim>\<open>JSON.stringify\<close> of a message is the message itself, and
  \<^verbatim>\<open>Date.now()\<close> is the argument \<open>now\<close> of the operation that reads it.
\<close>

type_synonym wsid = string

datatype SignalingMessageType =
  T_join | T_leave | T_offer | T_answer | T_candidate
  | T_peer_list | T_peer_joined | T_peer_left | T_error

record PeerInfo =
  pi_id :: string
  pi_username :: "string option"
  pi_joinedAt :: int

datatype Payload =
  P_none
  | P_join "string option"
  | P_opaque string
  | P_peerInfo PeerInfo
  | P_peerList "PeerInfo list"
  | P_peerLeft string
  | P_error string string

record SignalingMessage =
  m_type :: SignalingMessageType
  m_roomId :: string
  m_senderId :: string
  m_targetId :: "string option"
  m_payload :: Payload

record ExtendedWebSocket =
  ws_roomId :: "string option"
  ws_username :: "string option"
  ws_isAlive :: bool
  ws_open :: bool
  ws_sent :: "SignalingMessage list"

record Room =
  r_id :: string
  r_peers :: "wsid list"
  r_createdAt :: int

record Server =
  rooms :: "(string \<times> Room) list"
  sockets :: "wsid \<Rightarrow> ExtendedWebSocket"

definition new_socket :: ExtendedWebSocket where
  "new_socket = \<lparr>ws_roomId = None, ws_username = None, ws_isAlive = True,
                  ws_open = True, ws_sent = []\<rparr>"

definition init_server :: Server where
  "init_server = \<lparr>rooms = [], sockets = (\<lambda>_. new_socket)\<rparr>"

section \<open>RoomManager (backend/src/roomManager.ts)\<close>

text \<open>\<^verbatim>\<open>Map.set\<close> on the member map: a new key goes to the end, a present key keeps its place.\<close>

definition peers_set :: "wsid \<Rightarrow> wsid list \<Rightarrow> wsid list" where
  "peers_set k ks = (if k \<in> set ks then ks else ks @ [k])"

definition peers_delete :: "wsid \<Rightarrow> wsid list \<Rightarrow> wsid list" where
  "peers_delete k ks = filter (\<lambda>k'. k' \<noteq> k) ks"

definition ws_send :: "wsid \<Rightarrow> SignalingMessage \<Rightarrow> Server \<Rightarrow> Server" where
  "ws_send w msg s =
     s\<lparr>sockets := (sockets s)(w := (sockets s w)\<lparr>ws_sent := ws_sent (sockets s w) @ [msg]\<rparr>)\<rparr>"

definition createRoom :: "string \<Rightarrow> int \<Rightarrow> Server \<Rightarrow> Room \<times> Server" where
  "createRoom roomId now s =
     (let room = \<lparr>r_id = roomId, r_peers = [], r_createdAt = now\<rparr>
      in (room, s\<lparr>rooms := AList.update roomId room (rooms s)\<rparr>))"

definition getRoom :: "string \<Rightarrow> Server \<Rightarrow> Room option" where
  "getRoom roomId s = map_of (rooms s) roomId"

definition roomExists :: "string \<Rightarrow> Server \<Rightarrow> bool" where
  "roomExists roomId s = (map_of (rooms s) roomId \<noteq> None)"

definition getPeerList :: "string \<Rightarrow> int \<Rightarrow> Server \<Rightarrow> PeerInfo list" where
  "getPeerList roomId now s =
     (case map_of (rooms s) roomId of
        None \<Rightarrow> []
      | Some room \<Rightarrow>
          map (\<lambda>i. \<lparr>pi_id = i, pi_username = ws_username (sockets s i), pi_joinedAt = now\<rparr>)
              (r_peers room))"

definition broadcastToRoom :: "string \<Rightarrow> SignalingMessage \<Rightarrow> wsid option \<Rightarrow> Server \<Rightarrow> Server" where
  "broadcastToRoom roomId message excludePeerId s =
     (case map_of (rooms s) roomId of
        None \<Rightarrow> s
      | Some room \<Rightarrow>
          fold (\<lambda>i s'. if Some i \<noteq> excludePeerId \<and> ws_open (sockets s' i)
                        then ws_send i message s' else s')
               (r_peers room) s)"

definition sendToPeer :: "string \<Rightarrow> wsid \<Rightarrow> SignalingMessage \<Rightarrow> Server \<Rightarrow> bool \<times> Server" where
  "sendToPeer roomId peerId message s =
     (case map_of (rooms s) roomId of
        None \<Rightarrow> (False, s)
      | Some room \<Rightarrow>
          if peerId \<notin> set (r_peers room) \<or> \<not> ws_open (sockets s peerId) then (False, s)
          else (True, ws_send peerId message s))"

definition joinRoom :: "string \<Rightarrow> wsid \<Rightarrow> int \<Rightarrow> Server \<Rightarrow> bool \<times> Server" where
  "joinRoom roomId w now s =
     (let s1 = (case map_of (rooms s) roomId of
                  None \<Rightarrow> snd (createRoom roomId now s)
                | Some room \<Rightarrow> s);
          s2 = s1\<lparr>rooms := AList.map_entry roomId
                               (\<lambda>room. room\<lparr>r_peers := peers_set w (r_peers room)\<rparr>) (rooms s1)\<rparr>;
          s3 = s2\<lparr>sockets := (sockets s2)(w := (sockets s2 w)\<lparr>ws_roomId := Some roomId\<rparr>)\<rparr>;
          newPeerInfo = \<lparr>pi_id = w, pi_username = ws_username (sockets s3 w), pi_joinedAt = now\<rparr>;
          peerJoinedMessage = \<lparr>m_type = T_peer_joined, m_roomId = roomId, m_senderId = ''server'',
                                m_targetId = None, m_payload = P_peerInfo newPeerInfo\<rparr>;
          s4 = broadcastToRoom roomId peerJoinedMessage (Some w) s3;
          peerList = getPeerList roomId now s4;
          peerListMessage = \<lparr>m_type = T_peer_list, m_roomId = roomId, m_senderId = ''server'',
                              m_targetId = None, m_payload = P_peerList peerList\<rparr>
      in (True, ws_send w peerListMessage s4))"

definition leaveRoom :: "wsid \<Rightarrow> Server \<Rightarrow> Server" where
  "leaveRoom w s =
     (case ws_roomId (sockets s w) of
        None \<Rightarrow> s
      | Some roomId \<Rightarrow>
          if roomId = [] then s
          else (case map_of (rooms s) roomId of
                  None \<Rightarrow> s
                | Some room \<Rightarrow>
                    (let remaining = peers_delete w (r_peers room);
                         s1 = s\<lparr>rooms := AList.map_entry roomId
                                            (\<lambda>room. room\<lparr>r_peers := peers_delete w (r_peers room)\<rparr>)
                                            (rooms s)\<rparr>;
                         peerLeftMessage = \<lparr>m_type = T_peer_left, m_roomId = roomId,
                                            m_senderId = ''server'', m_targetId = None,
                                            m_payload = P_peerLeft w\<rparr>;
                         s2 = broadcastToRoom roomId peerLeftMessage None s1;
                         s3 = (if remaining = [] then s2\<lparr>rooms := AList.delete roomId (rooms s2)\<rparr>
                               else s2)
                     in s3\<lparr>sockets := (sockets s3)(w := (sockets s3 w)\<lparr>ws_roomId := None\<rparr>)\<rparr>)))"

definition getRoomCount :: "Server \<Rightarrow> nat" where
  "getRoomCount s = length (rooms s)"

definition getTotalPeerCount :: "Server \<Rightarrow> nat" where
  "getTotalPeerCount s = fold (\<lambda>(roomId, room) count. count + length (r_peers room)) (rooms s) 0"

definition maxAge :: int where
  "maxAge = 24 * 60 * 60 * 1000"

definition cleanupStaleRooms :: "int \<Rightarrow> Server \<Rightarrow> Server" where
  "cleanupStaleRooms now s =
     fold (\<lambda>(roomId, room) s'.
             if r_peers room = [] \<and> now - r_createdAt room > maxAge
             then s'\<lparr>rooms := AList.delete roomId (rooms s')\<rparr> else s')
          (rooms s) s"

section \<open>Relay server: message dispatch\<close>

definition sendError :: "wsid \<Rightarrow> string \<Rightarrow> string \<Rightarrow> Server \<Rightarrow> Server" where
  "sendError w code errorMessage s =
     ws_send w \<lparr>m_type = T_error,
                m_roomId = (case ws_roomId (sockets s w) of None \<Rightarrow> [] | Some r \<Rightarrow> r),
                m_senderId = ''server'', m_targetId = None,
                m_payload = P_error code errorMessage\<rparr> s"

definition type_name :: "SignalingMessageType \<Rightarrow> string" where
  "type_name t = (case t of
      T_join \<Rightarrow> ''join'' | T_leave \<Rightarrow> ''leave'' | T_offer \<Rightarrow> ''offer''
    | T_answer \<Rightarrow> ''answer'' | T_candidate \<Rightarrow> ''candidate'' | T_peer_list \<Rightarrow> ''peer-list''
    | T_peer_joined \<Rightarrow> ''peer-joined'' | T_peer_left \<Rightarrow> ''peer-left'' | T_error \<Rightarrow> ''error'')"

definition join_username :: "Payload \<Rightarrow> wsid \<Rightarrow> string" where
  "join_username payload w =
     (case payload of
        P_join (Some u) \<Rightarrow> if u = [] then ''Peer-'' @ take 4 w else u
      | _ \<Rightarrow> ''Peer-'' @ take 4 w)"

definition relay :: "wsid \<Rightarrow> SignalingMessage \<Rightarrow> Server \<Rightarrow> Server" where
  "relay w message s =
     (case m_targetId message of
        None \<Rightarrow> sendError w ''MISSING_TARGET'' ''Target peer ID is required'' s
      | Some targetId \<Rightarrow>
          if targetId = [] then sendError w ''MISSING_TARGET'' ''Target peer ID is required'' s
          else
            (let forwardMessage = \<lparr>m_type = m_type message, m_roomId = m_roomId message,
                                   m_senderId = w, m_targetId = Some targetId,
                                   m_payload = m_payload message\<rparr>;
                 (sent, s1) = sendToPeer (m_roomId message) targetId forwardMessage s
             in if \<not> sent
                then sendError w ''PEER_NOT_FOUND'' (''Target peer '' @ targetId @ '' not found'') s1
                else s1))"

definition handleSignalingMessage :: "wsid \<Rightarrow> SignalingMessage \<Rightarrow> int \<Rightarrow> Server \<Rightarrow> Server" where
  "handleSignalingMessage w message now s =
     (case m_type message of
        T_join \<Rightarrow>
          (let s1 = s\<lparr>sockets := (sockets s)(w := (sockets s w)
                         \<lparr>ws_username := Some (join_username (m_payload message) w)\<rparr>)\<rparr>
           in snd (joinRoom (m_roomId message) w now s1))
      | T_leave \<Rightarrow> leaveRoom w s
      | T_offer \<Rightarrow> relay w message s
      | T_answer \<Rightarrow> relay w message s
      | T_candidate \<Rightarrow> relay w message s
      | _ \<Rightarrow> sendError w ''UNKNOWN_TYPE'' (''Unknown message type: '' @ type_name (m_type message)) s)"

text \<open>The \<^verbatim>\<open>close\<close> and \<^verbatim>\<open>error\<close> handlers of a connection: the socket is no longer
  open and the leave path runs.\<close>

definition on_close :: "wsid \<Rightarrow> Server \<Rightarrow> Server" where
  "on_close w s = leaveRoom w (s\<lparr>sockets := (sockets s)(w := (sockets s w)\<lparr>ws_open := False\<rparr>)\<rparr>)"

datatype Event = Message wsid SignalingMessage int | Close wsid | Sweep int

fun on_event :: "Event \<Rightarrow> Server \<Rightarrow> Server" where
  "on_event (Message w message now) s = handleSignalingMessage w message now s"
| "on_event (Close w) s = on_close w s"
| "on_event (Sweep now) s = cleanupStaleRooms now s"

definition run :: "Event list \<Rightarrow> Server \<Rightarrow> Server" where
  "run evs s = fold on_event evs s"

text \<open>The member maps and the registry are JavaScript maps: their keys are distinct.\<close>

definition wf_rooms :: "(string \<times> Room) list \<Rightarrow> bool" where
  "wf_rooms rs \<longleftrightarrow> distinct (map fst rs) \<and> (\<forall>(k, room) \<in> set rs. distinct (r_peers room))"

definition wf_server :: "Server \<Rightarrow> bool" where
  "wf_server s \<longleftrightarrow> distinct (map fst (rooms s)) \<and> (\<forall>(k, room) \<in> set (rooms s). distinct (r_peers room))"

section \<open>JavaScript primitives used by the client\<close>

subsection \<open>Numbers\<close>

text \<open>
  A JavaScript number is an IEEE 754 binary64 value. Byte counts are integers below
  \<open>2^53\<close> and are numbers exactly; a quotient or a product is the exact rational result
  rounded to the nearest binary64 value, ties to the even significand (\<open>fl64\<close>, for
  results in the normal range, which is where quotients of byte counts lie).
  \<^verbatim>\<open>Math.round\<close> gives the nearest integer, a tie going up.
\<close>

datatype Number = Num rat | Infinity | NaN

definition ilog2 :: "rat \<Rightarrow> int" where
  "ilog2 x = (let (p, q) = quotient_of x; e = bitlen p - bitlen q
              in if 2 powi e \<le> x then e else e - 1)"

definition fl64 :: "rat \<Rightarrow> rat" where
  "fl64 x =
     (if x = 0 then 0
      else (let a = \<bar>x\<bar>;
                u = 2 powi (ilog2 a - 52);
                q = a / u;
                n = \<lfloor>q\<rfloor>;
                r = q - of_int n;
                m = (if r < 1 / 2 then n else if 1 / 2 < r then n + 1
                     else if even n then n else n + 1)
            in sgn x * of_int m * u))"

definition js_div :: "nat \<Rightarrow> nat \<Rightarrow> Number" where
  "js_div a b = (if b = 0 then (if a = 0 then NaN else Infinity)
                 else Num (fl64 (of_nat a / of_nat b)))"

definition js_times100 :: "Number \<Rightarrow> Number" where
  "js_times100 x = (case x of Num v \<Rightarrow> Num (fl64 (v * 100)) | Infinity \<Rightarrow> Infinity | NaN \<Rightarrow> NaN)"

definition Math_round :: "Number \<Rightarrow> Number" where
  "Math_round x = (case x of Num v \<Rightarrow> Num (of_int \<lfloor>v + 1 / 2\<rfloor>) | Infinity \<Rightarrow> Infinity | NaN \<Rightarrow> NaN)"

text \<open>\<^verbatim>\<open>Math.round((bytes / size) * 100)\<close>, the expression of both progress updates.\<close>

definition progress_of :: "nat \<Rightarrow> nat \<Rightarrow> Number" where
  "progress_of bytes totalSize = Math_round (js_times100 (js_div bytes totalSize))"

text \<open>The formula of the specification, \<open>floor(bytes / size * 100)\<close>, on exact numbers.\<close>

definition floor_progress :: "nat \<Rightarrow> nat \<Rightarrow> int" where
  "floor_progress bytes totalSize = \<lfloor>(of_nat bytes / of_nat totalSize * 100 :: rat)\<rfloor>"

subsection \<open>Base64: \<^verbatim>\<open>btoa\<close> and \<^verbatim>\<open>atob\<close>\<close>

text \<open>
  A \<^verbatim>\<open>Uint8Array\<close> is a list of bytes, and the binary string built from it with
  \<^verbatim>\<open>String.fromCharCode\<close> (read back with \<^verbatim>\<open>charCodeAt\<close>) has one code unit per
  byte, so it is the same list. \<^verbatim>\<open>btoa\<close> encodes with padding; \<^verbatim>\<open>atob\<close> is the
  forgiving decoder of the platform: it drops ASCII whitespace, removes one or two
  trailing \<^verbatim>\<open>=\<close> when the length is a multiple of four, and throws (\<open>None\<close>) on a
  length congruent to one modulo four or on a character outside the alphabet.
\<close>

type_synonym byte = "8 word"

definition alphabet :: string where
  "alphabet = ''ABCDEFGHIJKLMNOPQRSTUVWXYZabcdefghijklmnopqrstuvwxyz0123456789+/''"

definition b64 :: "nat \<Rightarrow> char" where
  "b64 v = alphabet ! v"

fun index_of :: "'a \<Rightarrow> 'a list \<Rightarrow> nat option" where
  "index_of x [] = None"
| "index_of x (y # ys) = (if x = y then Some 0 else map_option Suc (index_of x ys))"

definition b64_index :: "char \<Rightarrow> nat option" where
  "b64_index c = index_of c alphabet"

fun btoa :: "byte list \<Rightarrow> string" where
  "btoa [] = []"
| "btoa [a] =
     (let n = unat a * 65536
      in [b64 (n div 262144), b64 (n div 4096 mod 64), CHR ''='', CHR ''=''])"
| "btoa [a, b] =
     (let n = unat a * 65536 + unat b * 256
      in [b64 (n div 262144), b64 (n div 4096 mod 64), b64 (n div 64 mod 64), CHR ''=''])"
| "btoa (a # b # c # rest) =
     (let n = unat a * 65536 + unat b * 256 + unat c
      in b64 (n div 262144) # b64 (n div 4096 mod 64) # b64 (n div 64 mod 64) # b64 (n mod 64)
         # btoa rest)"

definition is_ascii_whitespace :: "char \<Rightarrow> bool" where
  "is_ascii_whitespace c \<longleftrightarrow> c \<in> set [CHR 0x09, CHR 0x0A, CHR 0x0C, CHR 0x0D, CHR 0x20]"

definition strip_padding :: "string \<Rightarrow> string" where
  "strip_padding d =
     (if length d mod 4 = 0 \<and> d \<noteq> [] \<and> last d = CHR ''=''
      then (if butlast d \<noteq> [] \<and> last (butlast d) = CHR ''='' then butlast (butlast d)
            else butlast d)
      else d)"

fun sextets :: "string \<Rightarrow> nat list option" where
  "sextets [] = Some []"
| "sextets (c # cs) =
     (case b64_index c of
        None \<Rightarrow> None
      | Some v \<Rightarrow> (case sextets cs of None \<Rightarrow> None | Some vs \<Rightarrow> Some (v # vs)))"

fun decode_sextets :: "nat list \<Rightarrow> byte list" where
  "decode_sextets (a # b # c # d # rest) =
     (let n = a * 262144 + b * 4096 + c * 64 + d
      in of_nat (n div 65536) # of_nat (n div 256 mod 256) # of_nat (n mod 256)
         # decode_sextets rest)"
| "decode_sextets [a, b, c] =
     (let n = (a * 4096 + b * 64 + c) div 4
      in [of_nat (n div 256), of_nat (n mod 256)])"
| "decode_sextets [a, b] = [of_nat ((a * 64 + b) div 16)]"
| "decode_sextets _ = []"

definition atob :: "string \<Rightarrow> byte list option" where
  "atob data =
     (let d = strip_padding (filter (\<lambda>c. \<not> is_ascii_whitespace c) data)
      in if length d mod 4 = 1 then None
         else map_option decode_sextets (sextets d))"

section \<open>Client store (frontend store) and types (frontend/src/types/index.ts)\<close>

text \<open>
  The store holds the transfers, the chat messages and the peer connections; the
  signaling hook holds the relay socket and the identifiers it stamps on what it sends.
  Log entries and console output do not feed back into any of this and are left out.
\<close>

datatype TransferStatus = pending | transferring | completed | failed

datatype Direction = send | receive

record FileMetadata =
  md_id :: string
  md_filename :: string
  md_size :: nat
  md_mime :: string
  md_senderId :: string
  md_senderName :: "string option"

record ChatMessage =
  cm_id :: string
  cm_senderId :: string
  cm_senderName :: string
  cm_content :: string
  cm_timestamp :: int

datatype DataChannelMessage =
  Chat ChatMessage
  | FileStart FileMetadata
  | Chunk string nat string
  | Done string

record FileTransfer =
  ft_id :: string
  ft_filename :: string
  ft_size :: nat
  ft_mime :: string
  ft_progress :: Number
  ft_status :: TransferStatus
  ft_direction :: Direction
  ft_peerId :: string
  ft_peerName :: "string option"
  ft_chunks :: "byte list list option"
  ft_blob :: "byte list option"
  ft_error :: "string option"
  ft_timestamp :: int

record FileBuffer =
  fb_metadata :: FileMetadata
  fb_chunks :: "byte list list"
  fb_receivedSize :: nat

datatype RTCSignalingState = stable | have_local_offer | have_remote_offer | closed

record RTCDataChannel =
  dc_label :: string
  dc_open :: bool
  dc_sent :: "DataChannelMessage list"

record RTCPeerConnection =
  rtc_signalingState :: RTCSignalingState
  rtc_localDescription :: "string option"
  rtc_remoteDescription :: "string option"
  rtc_dataChannels :: "string list"

record PeerConnection =
  pc_id :: string
  pc_username :: "string option"
  pc_connection :: RTCPeerConnection
  pc_dataChannel :: "RTCDataChannel option"
  pc_connected :: bool

record Client =
  st_peerId :: "string option"
  st_username :: string
  st_roomId :: "string option"
  sig_open :: bool
  sig_sent :: "SignalingMessage list"
  st_peers :: "PeerInfo list"
  peerConnections :: "(string \<times> PeerConnection) list"
  st_messages :: "ChatMessage list"
  transfers :: "FileTransfer list"
  fileBuffers :: "string \<Rightarrow> FileBuffer option"

definition init_client :: Client where
  "init_client = \<lparr>st_peerId = None, st_username = [], st_roomId = None, sig_open = False, sig_sent = [],
                   st_peers = [], peerConnections = [], st_messages = [], transfers = [],
                   fileBuffers = (\<lambda>_. None)\<rparr>"

definition addMessage :: "ChatMessage \<Rightarrow> Client \<Rightarrow> Client" where
  "addMessage message st = st\<lparr>st_messages := st_messages st @ [message]\<rparr>"

definition addTransfer :: "FileTransfer \<Rightarrow> Client \<Rightarrow> Client" where
  "addTransfer transfer st = st\<lparr>transfers := transfers st @ [transfer]\<rparr>"

definition updateTransfer :: "string \<Rightarrow> (FileTransfer \<Rightarrow> FileTransfer) \<Rightarrow> Client \<Rightarrow> Client" where
  "updateTransfer i updates st =
     st\<lparr>transfers := map (\<lambda>t. if ft_id t = i then updates t else t) (transfers st)\<rparr>"

definition setPeerConnection :: "string \<Rightarrow> PeerConnection \<Rightarrow> Client \<Rightarrow> Client" where
  "setPeerConnection p connection st =
     st\<lparr>peerConnections := AList.update p connection (peerConnections st)\<rparr>"

definition removePeerConnection :: "string \<Rightarrow> Client \<Rightarrow> Client" where
  "removePeerConnection p st = st\<lparr>peerConnections := AList.delete p (peerConnections st)\<rparr>"

definition setPeers :: "PeerInfo list \<Rightarrow> Client \<Rightarrow> Client" where
  "setPeers ps st = st\<lparr>st_peers := ps\<rparr>"

definition addPeer :: "PeerInfo \<Rightarrow> Client \<Rightarrow> Client" where
  "addPeer peer st = st\<lparr>st_peers := filter (\<lambda>p. pi_id p \<noteq> pi_id peer) (st_peers st) @ [peer]\<rparr>"

definition removePeer :: "string \<Rightarrow> Client \<Rightarrow> Client" where
  "removePeer p st = st\<lparr>st_peers := filter (\<lambda>q. pi_id q \<noteq> p) (st_peers st)\<rparr>"

section \<open>Chunked transfer and negotiation (frontend/src/hooks/useWebRTC.ts)\<close>

definition CHUNK_SIZE :: nat where
  "CHUNK_SIZE = 64 * 1024"

subsection \<open>Receiving\<close>

definition handleDataChannelMessage ::
  "string \<Rightarrow> DataChannelMessage \<Rightarrow> int \<Rightarrow> Client \<Rightarrow> Client" where
  "handleDataChannelMessage senderId message now st =
     (case message of
        Chat m \<Rightarrow> addMessage m st
      | FileStart metadata \<Rightarrow>
          addTransfer
            \<lparr>ft_id = md_id metadata, ft_filename = md_filename metadata,
             ft_size = md_size metadata, ft_mime = md_mime metadata, ft_progress = Num 0,
             ft_status = transferring, ft_direction = receive, ft_peerId = senderId,
             ft_peerName = md_senderName metadata, ft_chunks = Some [], ft_blob = None,
             ft_error = None, ft_timestamp = now\<rparr>
            (st\<lparr>fileBuffers := (fileBuffers st)(md_id metadata \<mapsto>
                   \<lparr>fb_metadata = metadata, fb_chunks = [], fb_receivedSize = 0\<rparr>)\<rparr>)
      | Chunk fileId index chunkData \<Rightarrow>
          (case fileBuffers st fileId of
             None \<Rightarrow> st
           | Some buffer \<Rightarrow>
               (case atob chunkData of
                  None \<Rightarrow> st
                | Some bytes \<Rightarrow>
                    (let buffer' = buffer\<lparr>fb_chunks := fb_chunks buffer @ [bytes],
                                          fb_receivedSize := fb_receivedSize buffer + length bytes\<rparr>;
                         progress = Math_round (js_times100
                                      (js_div (fb_receivedSize buffer') (md_size (fb_metadata buffer'))))
                     in updateTransfer fileId (\<lambda>t. t\<lparr>ft_progress := progress\<rparr>)
                          (st\<lparr>fileBuffers := (fileBuffers st)(fileId \<mapsto> buffer')\<rparr>))))
      | Done fileId \<Rightarrow>
          (case fileBuffers st fileId of
             None \<Rightarrow> st
           | Some buffer \<Rightarrow>
               (let blob = concat (fb_chunks buffer);
                    st1 = updateTransfer fileId
                            (\<lambda>t. t\<lparr>ft_status := completed, ft_progress := Num 100,
                                   ft_blob := Some blob\<rparr>) st
                in st1\<lparr>fileBuffers := (fileBuffers st1)(fileId := None)\<rparr>)))"

definition receive_all :: "string \<Rightarrow> DataChannelMessage list \<Rightarrow> int \<Rightarrow> Client \<Rightarrow> Client" where
  "receive_all senderId ms now st = fold (\<lambda>m. handleDataChannelMessage senderId m now) ms st"

subsection \<open>Peer events\<close>

definition handlePeerLeft :: "string \<Rightarrow> Client \<Rightarrow> Client" where
  "handlePeerLeft leftPeerId st =
     fold (\<lambda>t st'. if ft_peerId t = leftPeerId \<and> ft_status t = transferring
                    then updateTransfer (ft_id t)
                           (\<lambda>t'. t'\<lparr>ft_status := failed, ft_error := Some ''Peer disconnected''\<rparr>) st'
                    else st')
          (transfers st) (removePeerConnection leftPeerId st)"

definition createPeerConnection :: "string \<Rightarrow> string option \<Rightarrow> Client \<Rightarrow> Client" where
  "createPeerConnection targetPeerId targetUsername st =
     setPeerConnection targetPeerId
       \<lparr>pc_id = targetPeerId, pc_username = targetUsername,
        pc_connection = \<lparr>rtc_signalingState = stable, rtc_localDescription = None,
                          rtc_remoteDescription = None, rtc_dataChannels = []\<rparr>,
        pc_dataChannel = None, pc_connected = False\<rparr> st"

definition sendOffer :: "string \<Rightarrow> string \<Rightarrow> Client \<Rightarrow> Client" where
  "sendOffer targetId offer st =
     (case (st_roomId st, st_peerId st) of
        (Some r, Some p) \<Rightarrow>
          if \<not> sig_open st \<or> r = [] \<or> p = [] then st
          else st\<lparr>sig_sent := sig_sent st @
                   [\<lparr>m_type = T_offer, m_roomId = r, m_senderId = p,
                     m_targetId = Some targetId, m_payload = P_opaque offer\<rparr>]\<rparr>
      | _ \<Rightarrow> st)"

text \<open>
  \<open>createOffer\<close> stands for the session description the peer link produces for a
  target; the steps after each \<^verbatim>\<open>await\<close> run as soon as the link has produced it.
\<close>

definition initiateConnection ::
  "(string \<Rightarrow> string) \<Rightarrow> string \<Rightarrow> string option \<Rightarrow> Client \<Rightarrow> Client" where
  "initiateConnection createOffer targetPeerId targetUsername st =
     (let st1 = createPeerConnection targetPeerId targetUsername st;
          offer = createOffer targetPeerId;
          st2 = st1\<lparr>peerConnections := AList.map_entry targetPeerId
                   (\<lambda>pc. pc\<lparr>pc_connection := (pc_connection pc)
                      \<lparr>rtc_dataChannels := rtc_dataChannels (pc_connection pc) @ [''aeroshare''],
                       rtc_localDescription := Some offer,
                       rtc_signalingState := have_local_offer\<rparr>\<rparr>)
                   (peerConnections st1)\<rparr>
      in sendOffer targetPeerId offer st2)"

definition handlePeerJoined :: "SignalingMessage \<Rightarrow> Client \<Rightarrow> Client" where
  "handlePeerJoined message st = st"

definition handlePeerList :: "(string \<Rightarrow> string) \<Rightarrow> PeerInfo list \<Rightarrow> Client \<Rightarrow> Client" where
  "handlePeerList createOffer peerList st =
     fold (\<lambda>peer. initiateConnection createOffer (pi_id peer) (pi_username peer)) peerList st"

subsection \<open>The signaling hook (\<^verbatim>\<open>useSignaling\<close>)\<close>

text \<open>
  \<open>joinRoom\<close> of the hook makes up the identifier of the client
  (\<^verbatim>\<open>Math.random().toString(36).slice(2) + Date.now().toString(36)\<close>, the argument
  \<open>newPeerId\<close> here), stores it and stamps it on the \<open>join\<close> message as sender. The
  identifier the handlers read (\<^verbatim>\<open>stateRef.current.peerId\<close>) is the stored one.
  \<open>handleMessage\<close> is the dispatch on a message from the relay; the handlers of
  \<open>offer\<close>, \<open>answer\<close> and \<open>candidate\<close> are the argument \<open>negotiate\<close>, and a payload of
  another shape than the type of the message announces makes the handler throw, which
  the caller catches and logs.
\<close>

definition joinRoom_signaling :: "string \<Rightarrow> string \<Rightarrow> string \<Rightarrow> Client \<Rightarrow> Client" where
  "joinRoom_signaling targetRoomId name newPeerId st =
     (if \<not> sig_open st then st
      else st\<lparr>st_peerId := Some newPeerId,
              sig_sent := sig_sent st @
                [\<lparr>m_type = T_join, m_roomId = targetRoomId, m_senderId = newPeerId,
                  m_targetId = None, m_payload = P_join (Some name)\<rparr>]\<rparr>)"

definition handleMessage ::
  "(string \<Rightarrow> string) \<Rightarrow> (SignalingMessage \<Rightarrow> Client \<Rightarrow> Client) \<Rightarrow>
   SignalingMessage \<Rightarrow> Client \<Rightarrow> Client" where
  "handleMessage createOffer negotiate message st =
     (case m_type message of
        T_peer_list \<Rightarrow>
          (case m_payload message of
             P_peerList payload \<Rightarrow>
               (let filteredPeers = filter (\<lambda>p. Some (pi_id p) \<noteq> st_peerId st) payload
                in handlePeerList createOffer filteredPeers (setPeers filteredPeers st))
           | _ \<Rightarrow> st)
      | T_peer_joined \<Rightarrow>
          (case m_payload message of
             P_peerInfo payload \<Rightarrow>
               if Some (pi_id payload) \<noteq> st_peerId st
               then handlePeerJoined message (addPeer payload st) else st
           | _ \<Rightarrow> st)
      | T_peer_left \<Rightarrow>
          (case m_payload message of
             P_peerLeft leftPeerId \<Rightarrow> handlePeerLeft leftPeerId (removePeer leftPeerId st)
           | _ \<Rightarrow> st)
      | T_offer \<Rightarrow> negotiate message st
      | T_answer \<Rightarrow> negotiate message st
      | T_candidate \<Rightarrow> negotiate message st
      | _ \<Rightarrow> st)"

subsection \<open>Sending\<close>

text \<open>
  The identifier of the transfer (random in the source) and the clock are arguments.
  \<open>sendFile\<close> collects its target connections once; they are the entries of the
  store, referred to here by their keys, and a message is handed to each target whose
  data channel is open. The file reader delivers every slice it is asked for.
\<close>

record File =
  f_name :: string
  f_type :: string
  f_bytes :: "byte list"

definition dc_send :: "DataChannelMessage \<Rightarrow> PeerConnection \<Rightarrow> PeerConnection" where
  "dc_send m pc =
     (case pc_dataChannel pc of
        None \<Rightarrow> pc
      | Some ch \<Rightarrow> if dc_open ch then pc\<lparr>pc_dataChannel := Some (ch\<lparr>dc_sent := dc_sent ch @ [m]\<rparr>)\<rparr>
                   else pc)"

definition send_to_targets :: "string list \<Rightarrow> DataChannelMessage \<Rightarrow> Client \<Rightarrow> Client" where
  "send_to_targets targetConnections m st =
     st\<lparr>peerConnections :=
          fold (\<lambda>p pcs. AList.map_entry p (dc_send m) pcs) targetConnections (peerConnections st)\<rparr>"

text \<open>
  One \<^verbatim>\<open>onload\<close> event of the file reader, up to and including its progress update: the
  slice at \<open>offset\<close> is encoded and handed to every open target channel, and the
  progress of the transfer is set from the new offset.
\<close>

definition send_chunk :: "byte list \<Rightarrow> string \<Rightarrow> string list \<Rightarrow> nat \<Rightarrow> nat \<Rightarrow> Client \<Rightarrow> Client" where
  "send_chunk file fileId targetConnections offset chunkIndex st =
     (let chunk = take CHUNK_SIZE (drop offset file);
          base64 = btoa chunk;
          st1 = send_to_targets targetConnections (Chunk fileId chunkIndex base64) st;
          offset' = offset + length chunk;
          progress = Math_round (js_times100 (js_div offset' (length file)))
      in updateTransfer fileId (\<lambda>t. t\<lparr>ft_progress := progress\<rparr>) st1)"

text \<open>
  The chain of \<^verbatim>\<open>onload\<close> events: while the new offset is below the file size the next
  slice is read (after the pacing delay), otherwise \<open>done\<close> is sent and the transfer is
  marked completed.
\<close>

function sendChunks :: "byte list \<Rightarrow> string \<Rightarrow> string list \<Rightarrow> nat \<Rightarrow> nat \<Rightarrow> Client \<Rightarrow> Client" where
  "sendChunks file fileId targetConnections offset chunkIndex st =
     (let chunk = take CHUNK_SIZE (drop offset file);
          offset' = offset + length chunk;
          st2 = send_chunk file fileId targetConnections offset chunkIndex st
      in if offset' < length file
         then sendChunks file fileId targetConnections offset' (chunkIndex + 1) st2
         else updateTransfer fileId (\<lambda>t. t\<lparr>ft_status := completed, ft_progress := Num 100\<rparr>)
                (send_to_targets targetConnections (Done fileId) st2))"
  by pat_completeness auto
termination
  by (relation "measure (\<lambda>(file, fileId, targetConnections, offset, chunkIndex, st). length file - offset)")
     (auto simp: CHUNK_SIZE_def)

declare sendChunks.simps [simp del]

definition sendFile :: "File \<Rightarrow> string option \<Rightarrow> string \<Rightarrow> int \<Rightarrow> Client \<Rightarrow> Client" where
  "sendFile file targetPeerId fileId now st =
     (let metadata = \<lparr>md_id = fileId, md_filename = f_name file, md_size = length (f_bytes file),
                      md_mime = (if f_type file = [] then ''application/octet-stream'' else f_type file),
                      md_senderId = (case st_peerId st of None \<Rightarrow> [] | Some p \<Rightarrow> p),
                      md_senderName = Some (st_username st)\<rparr>;
          targeted = (case targetPeerId of None \<Rightarrow> False | Some t \<Rightarrow> t \<noteq> []);
          targetConnections =
            (if targeted
             then (case map_of (peerConnections st) (the targetPeerId) of
                     None \<Rightarrow> [] | Some pc \<Rightarrow> [the targetPeerId])
             else map fst (peerConnections st))
      in if targetConnections = [] then st
         else
           (let transfer = \<lparr>ft_id = fileId, ft_filename = f_name file,
                             ft_size = length (f_bytes file), ft_mime = f_type file,
                             ft_progress = Num 0, ft_status = transferring, ft_direction = send,
                             ft_peerId = (if targeted then the targetPeerId else ''broadcast''),
                             ft_peerName = None, ft_chunks = None, ft_blob = None,
                             ft_error = None, ft_timestamp = now\<rparr>;
                st1 = addTransfer transfer st;
                st2 = send_to_targets targetConnections (FileStart metadata) st1
            in sendChunks (f_bytes file) fileId targetConnections 0 0 st2))"

text \<open>What a peer's data channel has been handed so far.\<close>

definition sent_to :: "string \<Rightarrow> Client \<Rightarrow> DataChannelMessage list" where
  "sent_to p st =
     (case map_of (peerConnections st) p of
        None \<Rightarrow> []
      | Some pc \<Rightarrow> (case pc_dataChannel pc of None \<Rightarrow> [] | Some ch \<Rightarrow> dc_sent ch))"

section \<open>Auxiliary definitions for the proofs\<close>

text \<open>The bodies of the two \<^verbatim>\<open>forEach\<close> loops of the room manager, by name.\<close>

definition broadcast_step :: "SignalingMessage \<Rightarrow> wsid option \<Rightarrow> wsid \<Rightarrow> Server \<Rightarrow> Server" where
  "broadcast_step message excludePeerId =
     (\<lambda>i s'. if Some i \<noteq> excludePeerId \<and> ws_open (sockets s' i)
              then ws_send i message s' else s')"

definition stale :: "int \<Rightarrow> Room \<Rightarrow> bool" where
  "stale now room \<longleftrightarrow> r_peers room = [] \<and> now - r_createdAt room > maxAge"

definition sweep_step :: "int \<Rightarrow> string \<times> Room \<Rightarrow> Server \<Rightarrow> Server" where
  "sweep_step now =
     (\<lambda>(roomId, room) s'. if stale now room
                           then s'\<lparr>rooms := AList.delete roomId (rooms s')\<rparr> else s')"

text \<open>The members of a room in a registry state: none if the room does not exist.\<close>

definition room_members :: "string \<Rightarrow> Server \<Rightarrow> wsid list" where
  "room_members rid s = (case map_of (rooms s) rid of None \<Rightarrow> [] | Some room \<Rightarrow> r_peers room)"

text \<open>The sextets \<^verbatim>\<open>btoa\<close> writes for a byte list, before they become characters, and
  the number of \<^verbatim>\<open>=\<close> it appends.\<close>

fun enc_sextets :: "byte list \<Rightarrow> nat list" where
  "enc_sextets [] = []"
| "enc_sextets [a] =
     (let n = unat a * 65536 in [n div 262144, n div 4096 mod 64])"
| "enc_sextets [a, b] =
     (let n = unat a * 65536 + unat b * 256
      in [n div 262144, n div 4096 mod 64, n div 64 mod 64])"
| "enc_sextets (a # b # c # rest) =
     (let n = unat a * 65536 + unat b * 256 + unat c
      in n div 262144 # n div 4096 mod 64 # n div 64 mod 64 # n mod 64 # enc_sextets rest)"

fun pad_count :: "byte list \<Rightarrow> nat" where
  "pad_count [] = 0"
| "pad_count [a] = 2"
| "pad_count [a, b] = 1"
| "pad_count (a # b # c # rest) = pad_count rest"

text \<open>The messages the chain of \<^verbatim>\<open>onload\<close> events writes to an open channel.\<close>

function chunk_messages :: "byte list \<Rightarrow> string \<Rightarrow> nat \<Rightarrow> nat \<Rightarrow> DataChannelMessage list" where
  "chunk_messages file fileId offset chunkIndex =
     (let chunk = take CHUNK_SIZE (drop offset file);
          offset' = offset + length chunk
      in Chunk fileId chunkIndex (btoa chunk) #
         (if offset' < length file then chunk_messages file fileId offset' (chunkIndex + 1)
          else [Done fileId]))"
  by pat_completeness auto
termination
  by (relation "measure (\<lambda>(file, fileId, offset, chunkIndex). length file - offset)")
     (auto simp: CHUNK_SIZE_def)

declare chunk_messages.simps [simp del]

text \<open>The store holds a link to the peer whose data channel is open.\<close>

definition chan_open :: "string \<Rightarrow> Client \<Rightarrow> bool" where
  "chan_open q st \<longleftrightarrow>
     (\<exists>pc ch. map_of (peerConnections st) q = Some pc \<and> pc_dataChannel pc = Some ch \<and> dc_open ch)"

text \<open>The transfers that a \<open>peer-left\<close> event for a peer marks as failed.\<close>

definition failing_ids :: "string \<Rightarrow> FileTransfer list \<Rightarrow> string set" where
  "failing_ids leftPeerId ts =
     {ft_id t | t. t \<in> set ts \<and> ft_peerId t = leftPeerId \<and> ft_status t = transferring}"

definition fail_step :: "string \<Rightarrow> FileTransfer \<Rightarrow> Client \<Rightarrow> Client" where
  "fail_step leftPeerId =
     (\<lambda>t st'. if ft_peerId t = leftPeerId \<and> ft_status t = transferring
               then updateTransfer (ft_id t)
                      (\<lambda>t'. t'\<lparr>ft_status := failed, ft_error := Some ''Peer disconnected''\<rparr>) st'
               else st')"

text \<open>Messages and registry states used as concrete inputs.\<close>

definition join_msg :: "string \<Rightarrow> string \<Rightarrow> SignalingMessage" where
  "join_msg rid name = \<lparr>m_type = T_join, m_roomId = rid, m_senderId = ''client'',
                         m_targetId = None, m_payload = P_join (Some name)\<rparr>"

definition leave_msg :: "string \<Rightarrow> SignalingMessage" where
  "leave_msg rid = \<lparr>m_type = T_leave, m_roomId = rid, m_senderId = ''client'',
                     m_targetId = None, m_payload = P_none\<rparr>"

definition offer_msg :: "string \<Rightarrow> string \<Rightarrow> SignalingMessage" where
  "offer_msg rid target = \<lparr>m_type = T_offer, m_roomId = rid, m_senderId = ''client'',
                            m_targetId = Some target, m_payload = P_opaque ''sdp''\<rparr>"

definition one_member :: Server where
  "one_member = run [Message ''a1'' (join_msg ''r'' ''ann'') 0] init_server"

definition two_members :: Server where
  "two_members = run [Message ''a1'' (join_msg ''r'' ''ann'') 0,
                      Message ''b2'' (join_msg ''r'' ''bob'') 1] init_server"

definition two_rooms :: Server where
  "two_rooms = run [Message ''a1'' (join_msg ''r'' ''ann'') 0,
                    Message ''b2'' (join_msg ''q'' ''bob'') 1] init_server"

definition double_join :: Server where
  "double_join = run [Message ''c3'' (join_msg ''A'' ''cat'') 0,
                      Message ''c3'' (join_msg ''B'' ''cat'') 1] init_server"

definition with_empty_room :: Server where
  "with_empty_room = snd (createRoom ''old'' 0 one_member)"

text \<open>\<open>b2\<close> has stopped being writable and its \<^verbatim>\<open>close\<close> event has not been handled yet.\<close>

definition unwritable_member :: Server where
  "unwritable_member =
     two_members\<lparr>sockets := (sockets two_members)
                    (''b2'' := (sockets two_members ''b2'')\<lparr>ws_open := False\<rparr>)\<rparr>"

text \<open>Client states used as concrete inputs: a peer with an open data channel to \<open>b2\<close>,
  a small file, and a peer that is receiving a file \<open>f\<close> from \<open>a1\<close>.\<close>

definition open_channel :: PeerConnection where
  "open_channel =
     \<lparr>pc_id = ''b2'', pc_username = Some ''bob'',
      pc_connection = \<lparr>rtc_signalingState = stable, rtc_localDescription = Some ''offer'',
                        rtc_remoteDescription = Some ''answer'', rtc_dataChannels = [''aeroshare'']\<rparr>,
      pc_dataChannel = Some \<lparr>dc_label = ''aeroshare'', dc_open = True, dc_sent = []\<rparr>,
      pc_connected = True\<rparr>"

definition sender_ready :: Client where
  "sender_ready = init_client\<lparr>st_peerId := Some ''a1'', st_username := ''ann'',
                              st_roomId := Some ''r'', sig_open := True,
                              peerConnections := [(''b2'', open_channel)]\<rparr>"

definition small_file :: File where
  "small_file = \<lparr>f_name = ''hi.txt'', f_type = ''text/plain'', f_bytes = [104, 101, 108, 108, 111]\<rparr>"

definition file_f :: "nat \<Rightarrow> FileMetadata" where
  "file_f n = \<lparr>md_id = ''f'', md_filename = ''f.bin'', md_size = n,
               md_mime = ''application/octet-stream'', md_senderId = ''a1'',
               md_senderName = Some ''ann''\<rparr>"

definition receiving :: "nat \<Rightarrow> Client" where
  "receiving n = handleDataChannelMessage ''a1'' (FileStart (file_f n)) 0 init_client"

text \<open>The same receiver after \<open>k\<close> full chunks (of zero bytes) have arrived.\<close>

definition zero_chunk :: string where
  "zero_chunk = btoa (replicate CHUNK_SIZE 0)"

definition received_chunks :: "nat \<Rightarrow> nat \<Rightarrow> Client" where
  "received_chunks n k =
     receive_all ''a1'' (map (\<lambda>i. Chunk ''f'' i zero_chunk) [0..<k]) 1 (receiving n)"

text \<open>
  A client whose room and name are set and whose relay socket has opened joins room \<open>r\<close>
  under the identifier \<open>k7x\<close> it has made up; the server, which has named the connection
  \<open>a1\<close>, handles the \<open>join\<close> message; the client handles the peer list it is sent; the
  server handles the offer the client has written.
\<close>

definition joining_client :: Client where
  "joining_client =
     joinRoom_signaling ''r'' ''ann'' ''k7x''
       (init_client\<lparr>st_username := ''ann'', st_roomId := Some ''r'', sig_open := True\<rparr>)"

definition joined_server :: Server where
  "joined_server = run [Message ''a1'' (last (sig_sent joining_client)) 0] init_server"

definition listed_client :: Client where
  "listed_client =
     handleMessage (\<lambda>t. ''sdp-for-'' @ t) (\<lambda>m st. st)
       (last (ws_sent (sockets joined_server ''a1''))) joining_client"

definition offered_server :: Server where
  "offered_server = run [Message ''a1'' (last (sig_sent listed_client)) 1] joined_server"

section \<open>The room registry and the relay: proofs\<close>

subsection \<open>Sending and broadcasting\<close>

lemma rooms_ws_send [simp]: "rooms (ws_send w m s) = rooms s"
  by (simp add: ws_send_def)

lemma sockets_ws_send:
  "sockets (ws_send w m s) i =
     (if i = w then (sockets s w)\<lparr>ws_sent := ws_sent (sockets s w) @ [m]\<rparr> else sockets s i)"
  by (simp add: ws_send_def)

lemma broadcastToRoom_fold:
  "broadcastToRoom r m ex s =
     (case map_of (rooms s) r of
        None \<Rightarrow> s
      | Some room \<Rightarrow> fold (broadcast_step m ex) (r_peers room) s)"
  by (simp add: broadcastToRoom_def broadcast_step_def cong: option.case_cong)

lemma rooms_fold_send [simp]: "rooms (fold (broadcast_step m ex) ks s) = rooms s"
  by (induction ks arbitrary: s) (auto simp: broadcast_step_def)

lemma sockets_broadcast_step_other:
  "i \<noteq> k \<or> ex = Some i \<Longrightarrow> sockets (broadcast_step m ex k s) i = sockets s i"
  by (cases "i = k") (simp_all add: broadcast_step_def sockets_ws_send)

lemma sockets_broadcast_step_self:
  "sockets (broadcast_step m ex k s) k =
     (if Some k \<noteq> ex \<and> ws_open (sockets s k)
      then (sockets s k)\<lparr>ws_sent := ws_sent (sockets s k) @ [m]\<rparr> else sockets s k)"
  by (simp add: broadcast_step_def sockets_ws_send)

lemma sockets_fold_send_untouched:
  "i \<notin> set ks \<or> ex = Some i \<Longrightarrow> sockets (fold (broadcast_step m ex) ks s) i = sockets s i"
proof (induction ks arbitrary: s)
  case Nil
  then show ?case by simp
next
  case (Cons k ks)
  have "sockets (fold (broadcast_step m ex) ks (broadcast_step m ex k s)) i
          = sockets (broadcast_step m ex k s) i"
    using Cons by auto
  also have "\<dots> = sockets s i"
    using Cons.prems by (intro sockets_broadcast_step_other) auto
  finally show ?case by simp
qed

lemma username_fold_send:
  "ws_username (sockets (fold (broadcast_step m ex) ks s) i) = ws_username (sockets s i)"
  by (induction ks arbitrary: s) (auto simp: broadcast_step_def sockets_ws_send)

text \<open>A broadcast over distinct keys hands the message once to each open member that is
  not excluded, and to nobody else.\<close>

lemma sockets_fold_send:
  "distinct ks \<Longrightarrow>
   sockets (fold (broadcast_step m ex) ks s) i =
     (if i \<in> set ks \<and> Some i \<noteq> ex \<and> ws_open (sockets s i)
      then (sockets s i)\<lparr>ws_sent := ws_sent (sockets s i) @ [m]\<rparr> else sockets s i)"
proof (induction ks arbitrary: s)
  case Nil
  then show ?case by simp
next
  case (Cons k ks)
  let ?s1 = "broadcast_step m ex k s"
  have ih: "sockets (fold (broadcast_step m ex) ks ?s1) i =
        (if i \<in> set ks \<and> Some i \<noteq> ex \<and> ws_open (sockets ?s1 i)
         then (sockets ?s1 i)\<lparr>ws_sent := ws_sent (sockets ?s1 i) @ [m]\<rparr> else sockets ?s1 i)"
    using Cons by simp
  have other: "i \<noteq> k \<Longrightarrow> sockets ?s1 i = sockets s i"
    by (simp add: sockets_broadcast_step_other)
  show ?case
    using Cons.prems ih other sockets_broadcast_step_self [of m ex k s]
    by (cases "i = k") auto
qed

lemma rooms_broadcastToRoom [simp]: "rooms (broadcastToRoom r m ex s) = rooms s"
  by (simp add: broadcastToRoom_fold split: option.splits)

lemma username_broadcastToRoom [simp]:
  "ws_username (sockets (broadcastToRoom r m ex s) i) = ws_username (sockets s i)"
  by (simp add: broadcastToRoom_fold username_fold_send split: option.splits)

lemma sockets_broadcastToRoom_excluded [simp]:
  "sockets (broadcastToRoom r m (Some w) s) w = sockets s w"
  by (simp add: broadcastToRoom_fold sockets_fold_send_untouched split: option.splits)

lemma sockets_broadcastToRoom:
  "map_of (rooms s) r = Some room \<Longrightarrow> distinct (r_peers room) \<Longrightarrow>
   sockets (broadcastToRoom r m ex s) i =
     (if i \<in> set (r_peers room) \<and> Some i \<noteq> ex \<and> ws_open (sockets s i)
      then (sockets s i)\<lparr>ws_sent := ws_sent (sockets s i) @ [m]\<rparr> else sockets s i)"
  by (simp add: broadcastToRoom_fold sockets_fold_send)

lemma map_of_map_entry:
  "map_of (AList.map_entry k f xs) k' =
     (if k' = k then map_option f (map_of xs k) else map_of xs k')"
  by (induction xs) auto

subsection \<open>The sweep\<close>

lemma cleanupStaleRooms_fold: "cleanupStaleRooms now s = fold (sweep_step now) (rooms s) s"
  by (simp add: cleanupStaleRooms_def sweep_step_def stale_def)

lemma rooms_fold_sweep:
  "rooms (fold (sweep_step now) es s) =
     filter (\<lambda>(k, v). \<not> (\<exists>room. (k, room) \<in> set es \<and> stale now room)) (rooms s)"
proof (induction es arbitrary: s)
  case Nil
  then show ?case by simp
next
  case (Cons e es)
  obtain k room where e: "e = (k, room)" by (cases e)
  have step: "rooms (sweep_step now (k, room) s) =
      (if stale now room then AList.delete k (rooms s) else rooms s)"
    by (simp add: sweep_step_def)
  show ?case
    unfolding e
    by (auto simp: Cons.IH step AList.delete_eq intro!: filter_cong)
qed

lemma sockets_fold_sweep: "sockets (fold (sweep_step now) es s) = sockets s"
  by (induction es arbitrary: s) (auto simp: sweep_step_def split: prod.splits)

lemma map_of_filter_key:
  "map_of (filter (\<lambda>(k, v). P k) xs) k = (if P k then map_of xs k else None)"
  by (induction xs) auto

subsection \<open>The registry stays a map\<close>

text \<open>The keys of the registry and of every member map are distinct at the start and
  after every event, so the hypotheses of distinct keys below hold in every state the
  server reaches.\<close>

lemma wf_server_rooms: "wf_server s = wf_rooms (rooms s)"
  by (simp add: wf_server_def wf_rooms_def)

lemma keys_map_entry: "map fst (AList.map_entry k f rs) = map fst rs"
  by (induction rs) auto

lemma peers_ok_update:
  "\<forall>(k, room) \<in> set rs. distinct (r_peers room) \<Longrightarrow> distinct (r_peers room) \<Longrightarrow>
   \<forall>(k, room) \<in> set (AList.update k room rs). distinct (r_peers room)"
  by (induction rs) auto

lemma peers_ok_map_entry:
  "\<forall>(k, room) \<in> set rs. distinct (r_peers room) \<Longrightarrow>
   (\<And>room. distinct (r_peers room) \<Longrightarrow> distinct (r_peers (f room))) \<Longrightarrow>
   \<forall>(k, room) \<in> set (AList.map_entry k f rs). distinct (r_peers room)"
  by (induction rs) auto

lemma wf_rooms_update:
  "wf_rooms rs \<Longrightarrow> distinct (r_peers room) \<Longrightarrow> wf_rooms (AList.update k room rs)"
  unfolding wf_rooms_def using peers_ok_update [of rs room k]
  by (simp add: distinct_update)

lemma wf_rooms_map_entry:
  assumes "wf_rooms rs" and "\<And>room. distinct (r_peers room) \<Longrightarrow> distinct (r_peers (f room))"
  shows "wf_rooms (AList.map_entry k f rs)"
  using assms peers_ok_map_entry [of rs f k]
  unfolding wf_rooms_def by (simp add: keys_map_entry)

lemma wf_rooms_delete:
  assumes "wf_rooms rs"
  shows "wf_rooms (AList.delete k rs)"
proof -
  have "distinct (map fst (AList.delete k rs))"
    using assms by (simp add: wf_rooms_def distinct_delete)
  moreover have "set (AList.delete k rs) \<subseteq> set rs"
    by (auto simp: AList.delete_eq)
  ultimately show ?thesis
    using assms unfolding wf_rooms_def by blast
qed

lemma wf_createRoom: "wf_server s \<Longrightarrow> wf_server (snd (createRoom rid now s))"
  by (simp add: wf_server_rooms createRoom_def Let_def wf_rooms_update)

lemma wf_joinRoom: "wf_server s \<Longrightarrow> wf_server (snd (joinRoom rid w now s))"
proof -
  assume wf: "wf_server s"
  let ?s1 = "case map_of (rooms s) rid of None \<Rightarrow> snd (createRoom rid now s) | Some room \<Rightarrow> s"
  have "wf_rooms (rooms ?s1)"
    using wf wf_createRoom [OF wf, of rid now] by (simp add: wf_server_rooms split: option.splits)
  then have "wf_rooms (AList.map_entry rid (\<lambda>room. room\<lparr>r_peers := peers_set w (r_peers room)\<rparr>) (rooms ?s1))"
    by (rule wf_rooms_map_entry) (simp add: peers_set_def)
  then show ?thesis
    by (simp add: wf_server_rooms joinRoom_def Let_def)
qed

lemma wf_leaveRoom: "wf_server s \<Longrightarrow> wf_server (leaveRoom w s)"
proof -
  assume wf: "wf_server s"
  have m: "wf_rooms (AList.map_entry rid (\<lambda>room. room\<lparr>r_peers := peers_delete w (r_peers room)\<rparr>) (rooms s))" for rid
    using wf unfolding wf_server_rooms
    by (rule wf_rooms_map_entry) (simp add: peers_delete_def)
  show ?thesis
    using wf m
    by (auto simp: wf_server_rooms leaveRoom_def Let_def wf_rooms_delete split: option.splits)
qed

lemma wf_cleanup: "wf_server s \<Longrightarrow> wf_server (cleanupStaleRooms now s)"
  unfolding wf_server_rooms cleanupStaleRooms_fold rooms_fold_sweep
  by (auto simp: wf_rooms_def distinct_map_filter)

lemma wf_sendError: "wf_server (sendError w c e s) = wf_server s"
  by (simp add: wf_server_rooms sendError_def)

lemma wf_relay: "wf_server s \<Longrightarrow> wf_server (relay w m s)"
  by (auto simp: wf_server_rooms relay_def sendError_def sendToPeer_def Let_def split: option.splits)

lemma wf_on_event: "wf_server s \<Longrightarrow> wf_server (on_event e s)"
proof (cases e)
  case (Message w m now)
  assume wf: "wf_server s"
  have "wf_server (s\<lparr>sockets := f\<rparr>)" for f using wf by (simp add: wf_server_rooms)
  then show ?thesis
    using wf Message wf_joinRoom wf_leaveRoom [OF wf] wf_relay [OF wf]
    by (cases "m_type m") (simp_all add: handleSignalingMessage_def Let_def wf_sendError)
next
  case (Close w)
  assume wf: "wf_server s"
  have "wf_server (s\<lparr>sockets := f\<rparr>)" for f using wf by (simp add: wf_server_rooms)
  then show ?thesis using Close by (simp add: on_close_def wf_leaveRoom)
next
  case (Sweep now)
  assume "wf_server s"
  then show ?thesis using Sweep by (simp add: wf_cleanup)
qed

lemma wf_run: "wf_server s \<Longrightarrow> wf_server (run evs s)"
  unfolding run_def by (induction evs arbitrary: s) (simp_all add: wf_on_event)

lemma wf_init: "wf_server init_server"
  by (simp add: wf_server_def init_server_def)

subsection \<open>The concrete registry states\<close>

lemma one_member_rooms:
  "rooms one_member = [(''r'', \<lparr>r_id = ''r'', r_peers = [''a1''], r_createdAt = 0\<rparr>)]"
  by code_simp

lemma two_members_rooms:
  "rooms two_members = [(''r'', \<lparr>r_id = ''r'', r_peers = [''a1'', ''b2''], r_createdAt = 0\<rparr>)]"
  by code_simp

lemma two_rooms_rooms:
  "rooms two_rooms = [(''r'', \<lparr>r_id = ''r'', r_peers = [''a1''], r_createdAt = 0\<rparr>),
                      (''q'', \<lparr>r_id = ''q'', r_peers = [''b2''], r_createdAt = 1\<rparr>)]"
  by code_simp

lemma with_empty_room_rooms:
  "rooms with_empty_room = [(''r'', \<lparr>r_id = ''r'', r_peers = [''a1''], r_createdAt = 0\<rparr>),
                            (''old'', \<lparr>r_id = ''old'', r_peers = [], r_createdAt = 0\<rparr>)]"
  by code_simp

lemma two_members_sockets:
  "ws_roomId (sockets two_members ''a1'') = Some ''r''"
  "ws_open (sockets two_members ''a1'')"
  "ws_open (sockets two_members ''b2'')"
  "ws_open (sockets two_members ''zz'')"
  by code_simp+

lemma two_members_sent:
  "ws_sent (sockets two_members ''a1'') =
     [\<lparr>m_type = T_peer_list, m_roomId = ''r'', m_senderId = ''server'', m_targetId = None,
       m_payload = P_peerList [\<lparr>pi_id = ''a1'', pi_username = Some ''ann'', pi_joinedAt = 0\<rparr>]\<rparr>,
      \<lparr>m_type = T_peer_joined, m_roomId = ''r'', m_senderId = ''server'', m_targetId = None,
       m_payload = P_peerInfo \<lparr>pi_id = ''b2'', pi_username = Some ''bob'', pi_joinedAt = 1\<rparr>\<rparr>]"
  "ws_sent (sockets two_members ''b2'') =
     [\<lparr>m_type = T_peer_list, m_roomId = ''r'', m_senderId = ''server'', m_targetId = None,
       m_payload = P_peerList [\<lparr>pi_id = ''a1'', pi_username = Some ''ann'', pi_joinedAt = 1\<rparr>,
                               \<lparr>pi_id = ''b2'', pi_username = Some ''bob'', pi_joinedAt = 1\<rparr>]\<rparr>]"
  "ws_sent (sockets two_members ''zz'') = []"
  by code_simp+

section \<open>Claims about the room registry and the relay\<close>

subsection \<open>The peer list sent to a joining member\<close>

text \<open>
  \<open>joinRoom\<close> adds the member to the room first and then sends the list of all members
  of the room, so the list holds the joining member too: the first member of a new room
  is sent a list with one entry, its own.
\<close>

lemma joinRoom_peer_list_has_self:
  "room_members ''r'' init_server = [] \<and>
   ws_sent (sockets (snd (joinRoom ''r'' ''a1'' 0 init_server)) ''a1'') =
     [\<lparr>m_type = T_peer_list, m_roomId = ''r'', m_senderId = ''server'', m_targetId = None,
       m_payload = P_peerList [\<lparr>pi_id = ''a1'', pi_username = None, pi_joinedAt = 0\<rparr>]\<rparr>]"
  by code_simp

text \<open>
  For every registry state, room and connection, \<open>joinRoom\<close> sends the joining
  connection one more message, a peer list with one entry (identifier and name) for each
  member of the room after the join, in the order of the member map; these are the
  members before the join together with the joining member itself.
\<close>

lemma joinRoom_peer_list:
  "ws_sent (sockets (snd (joinRoom rid w now s)) w) =
     ws_sent (sockets s w) @
       [\<lparr>m_type = T_peer_list, m_roomId = rid, m_senderId = ''server'', m_targetId = None,
         m_payload = P_peerList
           (map (\<lambda>i. \<lparr>pi_id = i, pi_username = ws_username (sockets s i), pi_joinedAt = now\<rparr>)
                (peers_set w (room_members rid s)))\<rparr>]
   \<and> set (peers_set w (room_members rid s)) = set (room_members rid s) \<union> {w}"
  by (auto simp: joinRoom_def Let_def createRoom_def room_members_def map_of_map_entry update_conv'
      sockets_ws_send getPeerList_def peers_set_def split: option.splits)

subsection \<open>C2: creating a room that exists\<close>

text \<open>
  C2 says that \<open>createRoom\<close> on an identifier that is registered returns the registered
  room and changes nothing. \<open>createRoom\<close> has no such test: it builds a new room and
  stores it under the identifier. On a room with one member, created at time 0, a call
  at time 5 returns and registers an empty room created at time 5.
\<close>

theorem createRoom_replaces_existing:
  "map_of (rooms one_member) ''r'' = Some \<lparr>r_id = ''r'', r_peers = [''a1''], r_createdAt = 0\<rparr> \<and>
   fst (createRoom ''r'' 5 one_member) = \<lparr>r_id = ''r'', r_peers = [], r_createdAt = 5\<rparr> \<and>
   map_of (rooms (snd (createRoom ''r'' 5 one_member))) ''r'' =
     Some \<lparr>r_id = ''r'', r_peers = [], r_createdAt = 5\<rparr>"
  by code_simp

text \<open>
  C2, as the code has it: \<open>createRoom\<close> returns a room with the given identifier, no
  member and the current time as creation time, registers it under the identifier
  whether or not a room was registered there, and leaves every other room and every
  connection as it was; a second call at the same time changes nothing more.
\<close>

theorem createRoom_fresh:
  "fst (createRoom rid now s) = \<lparr>r_id = rid, r_peers = [], r_createdAt = now\<rparr> \<and>
   map_of (rooms (snd (createRoom rid now s))) rid = Some (fst (createRoom rid now s)) \<and>
   (\<forall>k. k \<noteq> rid \<longrightarrow> map_of (rooms (snd (createRoom rid now s))) k = map_of (rooms s) k) \<and>
   sockets (snd (createRoom rid now s)) = sockets s \<and>
   createRoom rid now (snd (createRoom rid now s)) = createRoom rid now s"
  by (simp add: createRoom_def Let_def update_conv')

theorem createRoom_fresh_witness:
  "''q'' \<noteq> ''r'' \<and>
   map_of (rooms (snd (createRoom ''r'' 5 two_rooms))) ''q'' =
     Some \<lparr>r_id = ''q'', r_peers = [''b2''], r_createdAt = 1\<rparr>"
  using createRoom_fresh [of "''r''" 5 two_rooms] by (simp add: two_rooms_rooms)

subsection \<open>C6: one room per connection\<close>

text \<open>
  C6 says that a connection is in the member map of at most one room. A connection has
  one \<open>roomId\<close> field and \<open>leaveRoom\<close> removes it from the room named there, but
  \<open>joinRoom\<close> overwrites the field without removing the connection from the room it
  named before. After a join of room A and a join of room B the connection is a member of
  both, and when it closes it is removed from B only: A keeps it for ever.
\<close>

theorem double_join_in_two_rooms:
  "room_members ''A'' double_join = [''c3''] \<and> room_members ''B'' double_join = [''c3''] \<and>
   ws_roomId (sockets double_join ''c3'') = Some ''B'' \<and>
   room_members ''A'' (on_event (Close ''c3'') double_join) = [''c3''] \<and>
   map_of (rooms (on_event (Close ''c3'') double_join)) ''B'' = None"
  by code_simp

subsection \<open>C7: relaying an offer, an answer or a candidate\<close>

text \<open>
  C7: for an offer, answer or candidate with a target, \<open>sendToPeer\<close> returns true exactly
  when the room of the message exists, the target is a member of it and the target's
  socket is open. Then the target is handed one more message, the message that came with
  its payload untouched and its sender identifier replaced by the identifier of the
  sending connection, and no other socket and no room changes: the sender is handed
  nothing. Otherwise the sender is handed one more message, the error \<open>PEER_NOT_FOUND\<close>,
  and no other socket and no room changes: the target is handed nothing.
\<close>

theorem relay_forward_or_not_found:
  assumes "m_type message \<in> {T_offer, T_answer, T_candidate}"
    and "m_targetId message = Some t" and "t \<noteq> []"
  shows "fst (sendToPeer (m_roomId message) t fwd s) =
           ((\<exists>room. map_of (rooms s) (m_roomId message) = Some room \<and> t \<in> set (r_peers room))
             \<and> ws_open (sockets s t))
       \<and> rooms (handleSignalingMessage w message now s) = rooms s
       \<and> sockets (handleSignalingMessage w message now s) =
           (if (\<exists>room. map_of (rooms s) (m_roomId message) = Some room \<and> t \<in> set (r_peers room))
                \<and> ws_open (sockets s t)
            then (sockets s)(t := (sockets s t)\<lparr>ws_sent := ws_sent (sockets s t) @
                   [\<lparr>m_type = m_type message, m_roomId = m_roomId message, m_senderId = w,
                     m_targetId = Some t, m_payload = m_payload message\<rparr>]\<rparr>)
            else (sockets s)(w := (sockets s w)\<lparr>ws_sent := ws_sent (sockets s w) @
                   [\<lparr>m_type = T_error,
                     m_roomId = (case ws_roomId (sockets s w) of None \<Rightarrow> [] | Some r \<Rightarrow> r),
                     m_senderId = ''server'', m_targetId = None,
                     m_payload = P_error ''PEER_NOT_FOUND''
                                   (''Target peer '' @ t @ '' not found'')\<rparr>]\<rparr>))"
proof -
  have h: "handleSignalingMessage w message now s = relay w message s"
    using assms(1) by (auto simp: handleSignalingMessage_def)
  show ?thesis
    unfolding h using assms(2,3)
    by (auto simp: relay_def sendToPeer_def sendError_def ws_send_def Let_def split: option.splits)
qed

theorem relay_forward_or_not_found_witness:
  "m_type (offer_msg ''r'' ''b2'') \<in> {T_offer, T_answer, T_candidate} \<and>
   m_targetId (offer_msg ''r'' ''b2'') = Some ''b2'' \<and> ''b2'' \<noteq> [] \<and>
   ws_sent (sockets (handleSignalingMessage ''a1'' (offer_msg ''r'' ''b2'') 2 two_members) ''b2'') =
     ws_sent (sockets two_members ''b2'') @
       [\<lparr>m_type = T_offer, m_roomId = ''r'', m_senderId = ''a1'',
         m_targetId = Some ''b2'', m_payload = P_opaque ''sdp''\<rparr>] \<and>
   ws_sent (sockets (handleSignalingMessage ''a1'' (offer_msg ''r'' ''b2'') 2 two_members) ''a1'') =
     ws_sent (sockets two_members ''a1'') \<and>
   ws_sent (sockets (handleSignalingMessage ''a1'' (offer_msg ''r'' ''zz'') 2 two_members) ''a1'') =
     ws_sent (sockets two_members ''a1'') @
       [\<lparr>m_type = T_error, m_roomId = ''r'', m_senderId = ''server'', m_targetId = None,
         m_payload = P_error ''PEER_NOT_FOUND'' ''Target peer zz not found''\<rparr>] \<and>
   ws_sent (sockets (handleSignalingMessage ''a1'' (offer_msg ''r'' ''zz'') 2 two_members) ''b2'') =
     ws_sent (sockets two_members ''b2'') \<and>
   ws_sent (sockets (handleSignalingMessage ''a1'' (offer_msg ''r'' ''zz'') 2 two_members) ''zz'') = []"
  using relay_forward_or_not_found [of "offer_msg ''r'' ''b2''" "''b2''" "offer_msg ''r'' ''b2''" two_members "''a1''" 2]
    relay_forward_or_not_found [of "offer_msg ''r'' ''zz''" "''zz''" "offer_msg ''r'' ''zz''" two_members "''a1''" 2]
  by (simp add: offer_msg_def two_members_rooms two_members_sockets two_members_sent)

subsection \<open>C8: leaving a room\<close>

text \<open>
  C8 says that every remaining member receives one \<open>peer-left\<close> message when a member
  leaves. The broadcast tests each member's socket and skips one that is not open: with
  \<open>b2\<close> not writable, \<open>b2\<close> remains a member after \<open>a1\<close> has left and has been handed
  nothing.
\<close>

theorem leaveRoom_skips_unwritable:
  "room_members ''r'' unwritable_member = [''a1'', ''b2''] \<and>
   map_of (rooms (leaveRoom ''a1'' unwritable_member)) ''r'' =
     Some \<lparr>r_id = ''r'', r_peers = [''b2''], r_createdAt = 0\<rparr> \<and>
   ws_sent (sockets (leaveRoom ''a1'' unwritable_member) ''b2'') =
     ws_sent (sockets unwritable_member ''b2'') \<and>
   \<lparr>m_type = T_peer_left, m_roomId = ''r'', m_senderId = ''server'', m_targetId = None,
     m_payload = P_peerLeft ''a1''\<rparr>
     \<notin> set (ws_sent (sockets (leaveRoom ''a1'' unwritable_member) ''b2''))"
  by code_simp

text \<open>
  C8, as the code has it: when a connection whose \<open>roomId\<close> names a registered room
  leaves, every other member of that room whose socket is open is handed exactly one
  \<open>peer-left\<close> message naming the connection, every other connection is handed nothing,
  the connection's \<open>roomId\<close> is cleared, and the room is removed from the registry if and
  only if no member remains (otherwise it stays, without the connection); other rooms
  are untouched. The \<open>leave\<close> message and the close of the transport both run this.
\<close>

theorem leaveRoom_notifies:
  assumes "ws_roomId (sockets s w) = Some rid" and "rid \<noteq> []"
    and "map_of (rooms s) rid = Some room" and "distinct (r_peers room)"
  shows "(\<forall>i. i \<noteq> w \<longrightarrow>
            sockets (leaveRoom w s) i =
              (if i \<in> set (r_peers room) \<and> ws_open (sockets s i)
               then (sockets s i)\<lparr>ws_sent := ws_sent (sockets s i) @
                      [\<lparr>m_type = T_peer_left, m_roomId = rid, m_senderId = ''server'',
                        m_targetId = None, m_payload = P_peerLeft w\<rparr>]\<rparr>
               else sockets s i))
       \<and> sockets (leaveRoom w s) w = (sockets s w)\<lparr>ws_roomId := None\<rparr>
       \<and> map_of (rooms (leaveRoom w s)) rid =
            (if peers_delete w (r_peers room) = [] then None
             else Some (room\<lparr>r_peers := peers_delete w (r_peers room)\<rparr>))
       \<and> (\<forall>k. k \<noteq> rid \<longrightarrow> map_of (rooms (leaveRoom w s)) k = map_of (rooms s) k)
       \<and> handleSignalingMessage w (leave_msg r') now s = leaveRoom w s
       \<and> on_event (Close w) s =
           leaveRoom w (s\<lparr>sockets := (sockets s)(w := (sockets s w)\<lparr>ws_open := False\<rparr>)\<rparr>)"
proof -
  let ?msg = "\<lparr>m_type = T_peer_left, m_roomId = rid, m_senderId = ''server'',
                m_targetId = None, m_payload = P_peerLeft w\<rparr>"
  let ?room' = "room\<lparr>r_peers := peers_delete w (r_peers room)\<rparr>"
  let ?s1 = "s\<lparr>rooms := AList.map_entry rid
                (\<lambda>room. room\<lparr>r_peers := peers_delete w (r_peers room)\<rparr>) (rooms s)\<rparr>"
  let ?s2 = "broadcastToRoom rid ?msg None ?s1"
  have r1: "map_of (rooms ?s1) rid = Some ?room'"
    using assms(3) by (simp add: map_of_map_entry)
  have d1: "distinct (r_peers ?room')"
    using assms(4) by (simp add: peers_delete_def)
  have bc: "sockets ?s2 i =
      (if i \<in> set (r_peers room) \<and> i \<noteq> w \<and> ws_open (sockets s i)
       then (sockets s i)\<lparr>ws_sent := ws_sent (sockets s i) @ [?msg]\<rparr> else sockets s i)" for i
    using sockets_broadcastToRoom [OF r1 d1, of ?msg None i] by (simp add: peers_delete_def)
  have lr: "leaveRoom w s =
      (let s3 = (if peers_delete w (r_peers room) = []
                 then ?s2\<lparr>rooms := AList.delete rid (rooms ?s2)\<rparr> else ?s2)
       in s3\<lparr>sockets := (sockets s3)(w := (sockets s3 w)\<lparr>ws_roomId := None\<rparr>)\<rparr>)"
    using assms(1,2,3) by (simp add: leaveRoom_def Let_def)
  have sock: "sockets (leaveRoom w s) = (sockets ?s2)(w := (sockets ?s2 w)\<lparr>ws_roomId := None\<rparr>)"
    unfolding lr by (simp add: Let_def)
  have rms: "rooms (leaveRoom w s) =
      (if peers_delete w (r_peers room) = [] then AList.delete rid (rooms ?s1) else rooms ?s1)"
    unfolding lr by (simp add: Let_def)
  have c1: "\<forall>i. i \<noteq> w \<longrightarrow>
            sockets (leaveRoom w s) i =
              (if i \<in> set (r_peers room) \<and> ws_open (sockets s i)
               then (sockets s i)\<lparr>ws_sent := ws_sent (sockets s i) @ [?msg]\<rparr>
               else sockets s i)"
    unfolding sock by (simp add: bc)
  have c2: "sockets (leaveRoom w s) w = (sockets s w)\<lparr>ws_roomId := None\<rparr>"
    unfolding sock by (simp add: bc)
  have c3: "map_of (rooms (leaveRoom w s)) rid =
            (if peers_delete w (r_peers room) = [] then None else Some ?room')"
    unfolding rms using assms(3) by (simp add: map_of_map_entry delete_conv')
  have c4: "\<forall>k. k \<noteq> rid \<longrightarrow> map_of (rooms (leaveRoom w s)) k = map_of (rooms s) k"
    unfolding rms by (simp add: map_of_map_entry delete_conv')
  have c5: "handleSignalingMessage w (leave_msg r') now s = leaveRoom w s"
    by (simp add: handleSignalingMessage_def leave_msg_def)
  have c6: "on_event (Close w) s =
           leaveRoom w (s\<lparr>sockets := (sockets s)(w := (sockets s w)\<lparr>ws_open := False\<rparr>)\<rparr>)"
    by (simp add: on_close_def)
  show ?thesis using c1 c2 c3 c4 c5 c6 by blast
qed

theorem leaveRoom_notifies_witness:
  "ws_roomId (sockets two_members ''a1'') = Some ''r'' \<and> ''r'' \<noteq> [] \<and>
   map_of (rooms two_members) ''r'' = Some \<lparr>r_id = ''r'', r_peers = [''a1'', ''b2''], r_createdAt = 0\<rparr> \<and>
   distinct [''a1'', ''b2''] \<and>
   sockets (leaveRoom ''a1'' two_members) ''b2'' =
     (sockets two_members ''b2'')\<lparr>ws_sent := ws_sent (sockets two_members ''b2'') @
        [\<lparr>m_type = T_peer_left, m_roomId = ''r'', m_senderId = ''server'',
          m_targetId = None, m_payload = P_peerLeft ''a1''\<rparr>]\<rparr> \<and>
   map_of (rooms (leaveRoom ''a1'' two_members)) ''r'' =
     Some \<lparr>r_id = ''r'', r_peers = [''b2''], r_createdAt = 0\<rparr>"
  using leaveRoom_notifies [of two_members "''a1''" "''r''"
      "\<lparr>r_id = ''r'', r_peers = [''a1'', ''b2''], r_createdAt = 0\<rparr>"]
  by (simp add: two_members_rooms two_members_sockets peers_delete_def)

subsection \<open>C10: the sweep of stale rooms\<close>

text \<open>
  C10: the sweep removes exactly the rooms that have no member and were created more
  than 24 hours (86400000 ms) before the sweep: such a room is gone after the sweep, and
  every other room, in particular every room with a member, is still registered,
  unchanged. No connection is touched. The keys of the registry are distinct, as the keys
  of a map are.
\<close>

theorem cleanupStaleRooms_exact:
  assumes "distinct (map fst (rooms s))"
  shows "maxAge = 86400000 \<and>
     map_of (rooms (cleanupStaleRooms now s)) k =
       (case map_of (rooms s) k of
          None \<Rightarrow> None
        | Some room \<Rightarrow> if r_peers room = [] \<and> now - r_createdAt room > maxAge then None
                       else Some room) \<and>
     sockets (cleanupStaleRooms now s) = sockets s"
proof -
  have "maxAge = 86400000" by (simp add: maxAge_def)
  moreover have "map_of (rooms (cleanupStaleRooms now s)) k =
       (case map_of (rooms s) k of
          None \<Rightarrow> None
        | Some room \<Rightarrow> if stale now room then None else Some room)"
    using assms
    by (auto simp: cleanupStaleRooms_fold rooms_fold_sweep map_of_filter_key
        split: option.splits dest: eq_key_imp_eq_value)
  moreover have "sockets (cleanupStaleRooms now s) = sockets s"
    by (simp add: cleanupStaleRooms_fold sockets_fold_sweep)
  ultimately show ?thesis by (simp add: stale_def cong: option.case_cong)
qed

theorem cleanupStaleRooms_exact_witness:
  "distinct (map fst (rooms with_empty_room)) \<and>
   map_of (rooms (cleanupStaleRooms 86400001 with_empty_room)) ''old'' = None \<and>
   map_of (rooms (cleanupStaleRooms 86400001 with_empty_room)) ''r'' =
     Some \<lparr>r_id = ''r'', r_peers = [''a1''], r_createdAt = 0\<rparr> \<and>
   map_of (rooms (cleanupStaleRooms 86400000 with_empty_room)) ''old'' =
     Some \<lparr>r_id = ''old'', r_peers = [], r_createdAt = 0\<rparr>"
  using cleanupStaleRooms_exact [of with_empty_room 86400001 "''old''", THEN conjunct2]
    cleanupStaleRooms_exact [of with_empty_room 86400001 "''r''", THEN conjunct2]
    cleanupStaleRooms_exact [of with_empty_room 86400000 "''old''", THEN conjunct2]
  by (simp add: with_empty_room_rooms maxAge_def)

section \<open>Base64: decoding an encoded byte list\<close>

subsection \<open>Sextets and bytes\<close>

lemma byte_bound: "unat (a :: 8 word) < 256"
  using unsigned_less [of a, where 'a = nat] by simp

lemma digits3: "k div 4096 * 4096 + k div 64 mod 64 * 64 + k mod 64 = (k::nat)"
proof -
  have "k mod 4096 = 64 * (k div 64 mod 64) + k mod 64"
    using mod_mult2_eq [of k 64 64] by simp
  moreover have "k = k div 4096 * 4096 + k mod 4096" by simp
  ultimately show ?thesis by linarith
qed

lemma digits4:
  "n div 262144 * 262144 + n div 4096 mod 64 * 4096 + n div 64 mod 64 * 64 + n mod 64 = (n::nat)"
proof -
  have "n mod 4096 = 64 * (n div 64 mod 64) + n mod 64"
    using mod_mult2_eq [of n 64 64] by simp
  moreover have "n mod 262144 = 4096 * (n div 4096 mod 64) + n mod 4096"
    using mod_mult2_eq [of n 4096 64] by simp
  moreover have "n = n div 262144 * 262144 + n mod 262144" by simp
  ultimately show ?thesis by linarith
qed

lemma dec1: "(x * 65536 div 262144 * 64 + x * 65536 div 4096 mod 64) div 16 = (x::nat)"
proof -
  define k where "k = x * 16"
  have a: "x * 65536 div 4096 = k" by (simp add: k_def)
  have b: "x * 65536 div 262144 = k div 64" by (simp add: k_def)
  have "k div 64 * 64 + k mod 64 = k" by simp
  then show ?thesis unfolding a b by (simp add: k_def)
qed

lemma dec2:
  fixes a b :: nat
  assumes "b < 256" and n: "n = a * 65536 + b * 256"
  shows "(n div 262144 * 4096 + n div 4096 mod 64 * 64 + n div 64 mod 64) div 4 = a * 256 + b"
proof -
  define k where "k = n div 64"
  have k: "k = (a * 256 + b) * 4" unfolding k_def n by simp
  have d1: "n div 4096 = k div 64" unfolding k_def by (simp add: div_mult2_eq [symmetric])
  have d2: "n div 262144 = k div 4096" unfolding k_def by (simp add: div_mult2_eq [symmetric])
  have "k div 4096 * 4096 + k div 64 mod 64 * 64 + k mod 64 = k" by (rule digits3)
  then show ?thesis unfolding d1 d2 k_def [symmetric] by (simp add: k)
qed

lemma dec3:
  fixes a b c :: nat
  assumes "b < 256" "c < 256" and n: "n = a * 65536 + b * 256 + c"
  shows "n div 65536 = a" "n div 256 mod 256 = b" "n mod 256 = c"
proof -
  define m where "m = a * 256 + b"
  have n2: "n = m * 256 + c" unfolding n m_def by simp
  show "n mod 256 = c" unfolding n2 using assms(2) by simp
  have "n div 256 = m" unfolding n2 using assms(2) by simp
  then show "n div 256 mod 256 = b" using assms(1) by (simp add: m_def)
  have "b * 256 + c < 65536" using assms(1,2) by linarith
  then show "n div 65536 = a" unfolding n by simp
qed


subsection \<open>The alphabet\<close>

lemma distinct_alphabet: "distinct alphabet"
  by (simp add: alphabet_def)

lemma length_alphabet: "length alphabet = 64"
  by (simp add: alphabet_def)

lemma index_of_nth: "distinct xs \<Longrightarrow> i < length xs \<Longrightarrow> index_of (xs ! i) xs = Some i"
proof (induction xs arbitrary: i)
  case Nil
  then show ?case by simp
next
  case (Cons x xs)
  show ?case
  proof (cases i)
    case 0
    then show ?thesis by simp
  next
    case (Suc j)
    with Cons.prems have "j < length xs" "xs ! j \<noteq> x" by auto
    with Cons Suc show ?thesis by auto
  qed
qed

lemma b64_index_b64: "v < 64 \<Longrightarrow> b64_index (b64 v) = Some v"
  by (simp add: b64_index_def b64_def index_of_nth distinct_alphabet length_alphabet)

lemma b64_in_alphabet: "v < 64 \<Longrightarrow> b64 v \<in> set alphabet"
  by (simp add: b64_def length_alphabet)

lemma alphabet_plain: "c \<in> set alphabet \<Longrightarrow> \<not> is_ascii_whitespace c \<and> c \<noteq> CHR ''=''"
  by (auto simp: alphabet_def is_ascii_whitespace_def)

lemma b64_plain: "v < 64 \<Longrightarrow> \<not> is_ascii_whitespace (b64 v) \<and> b64 v \<noteq> CHR ''=''"
  by (rule alphabet_plain) (rule b64_in_alphabet)

subsection \<open>Encoding, then decoding\<close>

lemma sextet_bounds:
  fixes n :: nat
  assumes "n < 16777216"
  shows "n div 262144 < 64" "n div 4096 mod 64 < 64" "n div 64 mod 64 < 64" "n mod 64 < 64"
  using assms by simp_all

lemma enc_sextets_bound: "v \<in> set (enc_sextets bs) \<Longrightarrow> v < 64"
proof (induction bs arbitrary: v rule: enc_sextets.induct)
  case 1
  then show ?case by simp
next
  case (2 a)
  have "unat a * 65536 < 16777216" using byte_bound [of a] by simp
  from sextet_bounds [OF this] 2 show ?case by (auto simp: Let_def)
next
  case (3 a b)
  have "unat a * 65536 + unat b * 256 < 16777216"
    using byte_bound [of a] byte_bound [of b] by simp
  from sextet_bounds [OF this] 3 show ?case by (auto simp: Let_def)
next
  case (4 a b c rest)
  have "unat a * 65536 + unat b * 256 + unat c < 16777216"
    using byte_bound [of a] byte_bound [of b] byte_bound [of c] by simp
  from sextet_bounds [OF this] 4 show ?case by (auto simp: Let_def)
qed

lemma replicate_2: "replicate 2 x = [x, x]"
  by (simp add: numeral_2_eq_2)

lemma btoa_sextets: "btoa bs = map b64 (enc_sextets bs) @ replicate (pad_count bs) CHR ''=''"
  by (induction bs rule: btoa.induct) (simp_all add: Let_def replicate_2)

lemma length_enc_sextets: "(length (enc_sextets bs) + pad_count bs) mod 4 = 0 \<and> pad_count bs \<le> 2"
  by (induction bs rule: enc_sextets.induct) (simp_all add: Let_def)

lemma sextets_map_b64: "\<forall>v \<in> set vs. v < 64 \<Longrightarrow> sextets (map b64 vs) = Some vs"
  by (induction vs) (simp_all add: b64_index_b64)

lemma strip_padding_0:
  "CHR ''='' \<notin> set xs \<Longrightarrow> strip_padding xs = xs"
  by (cases xs rule: rev_cases) (auto simp: strip_padding_def)

lemma strip_padding_1:
  assumes "CHR ''='' \<notin> set xs" and "(length xs + 1) mod 4 = 0"
  shows "strip_padding (xs @ [CHR ''='']) = xs"
proof -
  have "xs \<noteq> [] \<Longrightarrow> last xs \<noteq> CHR ''=''"
    using assms(1) by (metis last_in_set)
  then show ?thesis using assms(2) by (auto simp: strip_padding_def)
qed

lemma strip_padding_2:
  "(length xs + 2) mod 4 = 0 \<Longrightarrow> strip_padding (xs @ [CHR ''='', CHR ''='']) = xs"
  by (simp add: strip_padding_def butlast_append)

lemma strip_padding_pad:
  assumes "CHR ''='' \<notin> set xs" and "k \<le> 2" and "(length xs + k) mod 4 = 0"
  shows "strip_padding (xs @ replicate k CHR ''='') = xs"
proof -
  consider "k = 0" | "k = 1" | "k = 2" using assms(2) by linarith
  then show ?thesis
  proof cases
    case 1
    with assms show ?thesis by (simp add: strip_padding_0)
  next
    case 2
    with assms show ?thesis by (simp add: strip_padding_1)
  next
    case 3
    with assms show ?thesis by (simp add: strip_padding_2 replicate_2)
  qed
qed

lemma decode_enc: "decode_sextets (enc_sextets bs) = bs"
proof (induction bs rule: enc_sextets.induct)
  case 1
  then show ?case by simp
next
  case (2 a)
  have "decode_sextets (enc_sextets [a]) = [of_nat (unat a)]"
    by (simp only: enc_sextets.simps decode_sextets.simps Let_def dec1)
  then show ?case by simp
next
  case (3 a b)
  define n where "n = unat a * 65536 + unat b * 256"
  have "(n div 262144 * 4096 + n div 4096 mod 64 * 64 + n div 64 mod 64) div 4
          = unat a * 256 + unat b"
    using dec2 [OF byte_bound [of b] n_def] .
  moreover have "(unat a * 256 + unat b) div 256 = unat a" "(unat a * 256 + unat b) mod 256 = unat b"
    using byte_bound [of b] by simp_all
  ultimately show ?case by (simp add: Let_def n_def [symmetric])
next
  case (4 a b c rest)
  define n where "n = unat a * 65536 + unat b * 256 + unat c"
  have r: "n div 262144 * 262144 + n div 4096 mod 64 * 4096 + n div 64 mod 64 * 64 + n mod 64 = n"
    by (rule digits4)
  have "n div 65536 = unat a" "n div 256 mod 256 = unat b" "n mod 256 = unat c"
    using dec3 [OF byte_bound [of b] byte_bound [of c] n_def] .
  then show ?case using 4 r by (simp add: Let_def n_def [symmetric])
qed

text \<open>\<^verbatim>\<open>atob\<close> accepts what \<^verbatim>\<open>btoa\<close> writes and gives the bytes back.\<close>

lemma atob_btoa: "atob (btoa bs) = Some bs"
proof -
  let ?xs = "map b64 (enc_sextets bs)"
  have plain: "\<forall>c \<in> set ?xs. \<not> is_ascii_whitespace c \<and> c \<noteq> CHR ''=''"
    using enc_sextets_bound b64_plain by auto
  have eqws: "\<not> is_ascii_whitespace CHR ''=''" by (simp add: is_ascii_whitespace_def)
  have f: "filter (\<lambda>c. \<not> is_ascii_whitespace c) (btoa bs) = btoa bs"
    unfolding btoa_sextets using plain eqws by (auto simp: filter_id_conv)
  have sp: "strip_padding (btoa bs) = ?xs"
    unfolding btoa_sextets using plain length_enc_sextets [of bs]
    by (intro strip_padding_pad) auto
  have len: "length ?xs mod 4 \<noteq> 1"
    using length_enc_sextets [of bs] by simp presburger
  have sx: "sextets ?xs = Some (enc_sextets bs)"
    using enc_sextets_bound by (intro sextets_map_b64) auto
  show ?thesis
    using len by (simp add: atob_def f sp sx decode_enc)
qed

section \<open>The client: negotiation\<close>

subsection \<open>Initiating connections\<close>

lemma map_of_initiate:
  "map_of (peerConnections (initiateConnection mk t u st)) k =
     (if k = t
      then Some \<lparr>pc_id = t, pc_username = u,
                 pc_connection = \<lparr>rtc_signalingState = have_local_offer,
                                   rtc_localDescription = Some (mk t),
                                   rtc_remoteDescription = None,
                                   rtc_dataChannels = [''aeroshare'']\<rparr>,
                 pc_dataChannel = None, pc_connected = False\<rparr>
      else map_of (peerConnections st) k)"
  by (simp add: initiateConnection_def Let_def createPeerConnection_def setPeerConnection_def
      sendOffer_def map_of_map_entry update_conv' split: option.splits)

lemma sig_sent_initiate:
  "st_roomId st = Some r \<Longrightarrow> st_peerId st = Some me \<Longrightarrow> sig_open st \<Longrightarrow> r \<noteq> [] \<Longrightarrow> me \<noteq> [] \<Longrightarrow>
   sig_sent (initiateConnection mk t u st) =
     sig_sent st @ [\<lparr>m_type = T_offer, m_roomId = r, m_senderId = me, m_targetId = Some t,
                      m_payload = P_opaque (mk t)\<rparr>]"
  by (simp add: initiateConnection_def Let_def createPeerConnection_def setPeerConnection_def
      sendOffer_def)

lemma initiate_keeps:
  "st_roomId (initiateConnection mk t u st) = st_roomId st"
  "st_peerId (initiateConnection mk t u st) = st_peerId st"
  "sig_open (initiateConnection mk t u st) = sig_open st"
  "transfers (initiateConnection mk t u st) = transfers st"
  "fileBuffers (initiateConnection mk t u st) = fileBuffers st"
  by (simp_all add: initiateConnection_def Let_def createPeerConnection_def setPeerConnection_def
      sendOffer_def split: option.splits)

lemma handlePeerList_snoc:
  "handlePeerList mk (ps @ [p]) st =
     initiateConnection mk (pi_id p) (pi_username p) (handlePeerList mk ps st)"
  by (simp add: handlePeerList_def)

lemma handlePeerList_keeps:
  "st_roomId (handlePeerList mk ps st) = st_roomId st \<and>
   st_peerId (handlePeerList mk ps st) = st_peerId st \<and>
   sig_open (handlePeerList mk ps st) = sig_open st"
  by (induction ps rule: rev_induct) (simp_all add: handlePeerList_snoc initiate_keeps, simp add: handlePeerList_def)

lemma handlePeerList_links:
  "p \<in> set ps \<Longrightarrow>
   \<exists>pc. map_of (peerConnections (handlePeerList mk ps st)) (pi_id p) = Some pc \<and>
        pc_id pc = pi_id p \<and>
        rtc_dataChannels (pc_connection pc) = [''aeroshare''] \<and>
        rtc_localDescription (pc_connection pc) = Some (mk (pi_id p)) \<and>
        rtc_signalingState (pc_connection pc) = have_local_offer"
proof (induction ps rule: rev_induct)
  case Nil
  then show ?case by simp
next
  case (snoc x xs)
  show ?case
  proof (cases "pi_id p = pi_id x")
    case True
    then show ?thesis by (simp add: handlePeerList_snoc map_of_initiate)
  next
    case False
    with snoc have "p \<in> set xs" by auto
    with snoc.IH False show ?thesis by (simp add: handlePeerList_snoc map_of_initiate)
  qed
qed

lemma handlePeerList_offers:
  assumes "st_roomId st = Some r" "st_peerId st = Some me" "sig_open st" "r \<noteq> []" "me \<noteq> []"
  shows "sig_sent (handlePeerList mk ps st) =
     sig_sent st @ map (\<lambda>p. \<lparr>m_type = T_offer, m_roomId = r, m_senderId = me,
                              m_targetId = Some (pi_id p), m_payload = P_opaque (mk (pi_id p))\<rparr>) ps"
proof (induction ps rule: rev_induct)
  case Nil
  then show ?case by (simp add: handlePeerList_def)
next
  case (snoc x xs)
  have k: "st_roomId (handlePeerList mk xs st) = Some r" "st_peerId (handlePeerList mk xs st) = Some me"
    "sig_open (handlePeerList mk xs st)"
    using handlePeerList_keeps [of mk xs st] assms by simp_all
  show ?case
    by (simp add: handlePeerList_snoc sig_sent_initiate [OF k assms(4,5)] snoc.IH)
qed

subsection \<open>C9: who initiates\<close>

text \<open>
  C9: the handler of \<open>peer-joined\<close> changes nothing: no link, no data channel, no
  offer. The handler of the peer list initiates a connection to every peer of the list
  it is given: afterwards the store holds, for every peer of the list, a link for that
  peer on which the data channel \<open>aeroshare\<close> has been created and a local offer has
  been set, and, when the relay socket is open and the room and the own identifier are
  known (the conditions under which \<open>sendOffer\<close> sends), one offer per peer of the list
  has been written to the relay, in the order of the list.
\<close>

theorem initiator_asymmetry:
  "handlePeerJoined message st = st \<and>
   (\<forall>p \<in> set peerList.
      \<exists>pc. map_of (peerConnections (handlePeerList mk peerList st)) (pi_id p) = Some pc \<and>
           pc_id pc = pi_id p \<and>
           rtc_dataChannels (pc_connection pc) = [''aeroshare''] \<and>
           rtc_localDescription (pc_connection pc) = Some (mk (pi_id p)) \<and>
           rtc_signalingState (pc_connection pc) = have_local_offer) \<and>
   (st_roomId st = Some r \<and> st_peerId st = Some me \<and> sig_open st \<and> r \<noteq> [] \<and> me \<noteq> [] \<longrightarrow>
      sig_sent (handlePeerList mk peerList st) =
        sig_sent st @ map (\<lambda>p. \<lparr>m_type = T_offer, m_roomId = r, m_senderId = me,
                                 m_targetId = Some (pi_id p),
                                 m_payload = P_opaque (mk (pi_id p))\<rparr>) peerList)"
  using handlePeerList_links [of _ peerList mk st] handlePeerList_offers [of st r me mk peerList]
  by (simp add: handlePeerJoined_def)

theorem initiator_asymmetry_witness:
  "\<lparr>pi_id = ''b2'', pi_username = Some ''bob'', pi_joinedAt = 1\<rparr>
       \<in> set [\<lparr>pi_id = ''b2'', pi_username = Some ''bob'', pi_joinedAt = 1\<rparr>] \<and>
   st_roomId sender_ready = Some ''r'' \<and> st_peerId sender_ready = Some ''a1'' \<and>
   sig_open sender_ready \<and> ''r'' \<noteq> [] \<and> ''a1'' \<noteq> [] \<and>
   (\<exists>pc. map_of (peerConnections (handlePeerList (\<lambda>t. ''sdp-for-'' @ t)
                [\<lparr>pi_id = ''b2'', pi_username = Some ''bob'', pi_joinedAt = 1\<rparr>] sender_ready)) ''b2'' = Some pc \<and>
         rtc_dataChannels (pc_connection pc) = [''aeroshare''] \<and>
         rtc_localDescription (pc_connection pc) = Some ''sdp-for-b2'') \<and>
   sig_sent (handlePeerList (\<lambda>t. ''sdp-for-'' @ t)
                [\<lparr>pi_id = ''b2'', pi_username = Some ''bob'', pi_joinedAt = 1\<rparr>] sender_ready) =
     [\<lparr>m_type = T_offer, m_roomId = ''r'', m_senderId = ''a1'', m_targetId = Some ''b2'',
       m_payload = P_opaque ''sdp-for-b2''\<rparr>]"
  using initiator_asymmetry [of "leave_msg ''r''" sender_ready
      "[\<lparr>pi_id = ''b2'', pi_username = Some ''bob'', pi_joinedAt = 1\<rparr>]" "\<lambda>t. ''sdp-for-'' @ t" "''r''" "''a1''"]
  by (auto simp: sender_ready_def init_client_def)

subsection \<open>The peer list on the client\<close>

lemma st_peers_initiate: "st_peers (initiateConnection mk t u st) = st_peers st"
  by (simp add: initiateConnection_def Let_def createPeerConnection_def setPeerConnection_def
      sendOffer_def split: option.splits)

lemma st_peers_handlePeerList: "st_peers (handlePeerList mk ps st) = st_peers st"
  by (induction ps rule: rev_induct)
    (simp_all add: handlePeerList_snoc st_peers_initiate, simp add: handlePeerList_def)

text \<open>The client keeps the entries of the list whose identifier is not its own.\<close>

lemma self_filter:
  "st_peers (handleMessage mk neg
      \<lparr>m_type = T_peer_list, m_roomId = r, m_senderId = sid, m_targetId = tg,
        m_payload = P_peerList payload\<rparr> st) =
     filter (\<lambda>p. Some (pi_id p) \<noteq> st_peerId st) payload"
  by (simp add: handleMessage_def Let_def st_peers_handlePeerList setPeers_def)

text \<open>
  The entries carry the identifiers the server has given to the connections. Whenever
  the identifier the client holds is not the one the server has given to its connection,
  the client that handles the peer list sent to it on joining keeps its own entry and
  sets up a link to itself.
\<close>

lemma joiner_lists_itself:
  assumes "st_peerId st \<noteq> Some w"
  shows "\<lparr>pi_id = w, pi_username = ws_username (sockets s w), pi_joinedAt = now\<rparr>
           \<in> set (st_peers (handleMessage mk neg
                    (last (ws_sent (sockets (snd (joinRoom rid w now s)) w))) st))"
    and "\<exists>pc. map_of (peerConnections (handleMessage mk neg
                    (last (ws_sent (sockets (snd (joinRoom rid w now s)) w))) st)) w = Some pc \<and>
              rtc_localDescription (pc_connection pc) = Some (mk w)"
proof -
  let ?payload = "map (\<lambda>i. \<lparr>pi_id = i, pi_username = ws_username (sockets s i), pi_joinedAt = now\<rparr>)
                      (peers_set w (room_members rid s))"
  let ?me = "\<lparr>pi_id = w, pi_username = ws_username (sockets s w), pi_joinedAt = now\<rparr>"
  have msg: "last (ws_sent (sockets (snd (joinRoom rid w now s)) w)) =
      \<lparr>m_type = T_peer_list, m_roomId = rid, m_senderId = ''server'', m_targetId = None,
        m_payload = P_peerList ?payload\<rparr>"
    using joinRoom_peer_list [of rid w now s] by simp
  have "w \<in> set (peers_set w (room_members rid s))"
    by (simp add: peers_set_def)
  then have "?me \<in> set ?payload"
    unfolding set_map by (rule rev_image_eqI) simp
  then have kept: "?me \<in> set (filter (\<lambda>p. Some (pi_id p) \<noteq> st_peerId st) ?payload)"
    using assms by auto
  show "?me \<in> set (st_peers (handleMessage mk neg
                    (last (ws_sent (sockets (snd (joinRoom rid w now s)) w))) st))"
    unfolding msg self_filter by (rule kept)
  show "\<exists>pc. map_of (peerConnections (handleMessage mk neg
                    (last (ws_sent (sockets (snd (joinRoom rid w now s)) w))) st)) w = Some pc \<and>
              rtc_localDescription (pc_connection pc) = Some (mk w)"
    unfolding msg
    using handlePeerList_links [OF kept, of mk
        "setPeers (filter (\<lambda>p. Some (pi_id p) \<noteq> st_peerId st) ?payload) st"]
    by (auto simp: handleMessage_def Let_def)
qed

subsection \<open>C1: the peer list of a member that has just joined\<close>

text \<open>
  C1 says that the peer list of a member that has just joined holds exactly the members
  the room had before the join, without the joining member. The server sends the list of
  all members after the join, the joining member included, and the client is the one
  that removes its own entry: it drops the entries whose identifier equals the
  identifier it holds. But the identifier it holds is the one it made up when it
  joined, and the entries carry the identifiers the server has given to the connections;
  the server never reads the sender of a \<open>join\<close> message and never tells a client the
  identifier of its connection. So the client's own entry is never dropped.

  A client joins the empty room \<open>r\<close> under the identifier \<open>k7x\<close>, over the connection
  the server has named \<open>a1\<close>. The room had no member, and the list it is sent has one
  entry, \<open>a1\<close>, its own. The client keeps the entry as a peer, sets up a link with a
  data channel and a local offer for \<open>a1\<close>, and writes an offer for \<open>a1\<close> to the relay,
  which hands it to \<open>a1\<close>: the client is sent its own offer.
\<close>

theorem joiner_connects_to_itself:
  "st_peerId joining_client = Some ''k7x'' \<and>
   sig_sent joining_client =
     [\<lparr>m_type = T_join, m_roomId = ''r'', m_senderId = ''k7x'', m_targetId = None,
       m_payload = P_join (Some ''ann'')\<rparr>] \<and>
   room_members ''r'' init_server = [] \<and>
   room_members ''r'' joined_server = [''a1''] \<and>
   ws_sent (sockets joined_server ''a1'') =
     [\<lparr>m_type = T_peer_list, m_roomId = ''r'', m_senderId = ''server'', m_targetId = None,
       m_payload = P_peerList [\<lparr>pi_id = ''a1'', pi_username = Some ''ann'', pi_joinedAt = 0\<rparr>]\<rparr>] \<and>
   st_peers listed_client = [\<lparr>pi_id = ''a1'', pi_username = Some ''ann'', pi_joinedAt = 0\<rparr>] \<and>
   map_of (peerConnections listed_client) ''a1'' =
     Some \<lparr>pc_id = ''a1'', pc_username = Some ''ann'',
            pc_connection = \<lparr>rtc_signalingState = have_local_offer,
                              rtc_localDescription = Some ''sdp-for-a1'',
                              rtc_remoteDescription = None,
                              rtc_dataChannels = [''aeroshare'']\<rparr>,
            pc_dataChannel = None, pc_connected = False\<rparr> \<and>
   sig_sent listed_client =
     [\<lparr>m_type = T_join, m_roomId = ''r'', m_senderId = ''k7x'', m_targetId = None,
       m_payload = P_join (Some ''ann'')\<rparr>,
      \<lparr>m_type = T_offer, m_roomId = ''r'', m_senderId = ''k7x'', m_targetId = Some ''a1'',
       m_payload = P_opaque ''sdp-for-a1''\<rparr>] \<and>
   ws_sent (sockets offered_server ''a1'') =
     [\<lparr>m_type = T_peer_list, m_roomId = ''r'', m_senderId = ''server'', m_targetId = None,
       m_payload = P_peerList [\<lparr>pi_id = ''a1'', pi_username = Some ''ann'', pi_joinedAt = 0\<rparr>]\<rparr>,
      \<lparr>m_type = T_offer, m_roomId = ''r'', m_senderId = ''a1'', m_targetId = Some ''a1'',
       m_payload = P_opaque ''sdp-for-a1''\<rparr>]"
  by code_simp

section \<open>The client: transfers\<close>

subsection \<open>A peer leaves\<close>

lemma handlePeerLeft_fold:
  "handlePeerLeft p st = fold (fail_step p) (transfers st) (removePeerConnection p st)"
  by (simp add: handlePeerLeft_def fail_step_def)

lemma fail_step_keeps:
  "fileBuffers (fail_step p t st) = fileBuffers st"
  "peerConnections (fail_step p t st) = peerConnections st"
  by (simp_all add: fail_step_def updateTransfer_def)

lemma fold_fail_step_keeps:
  "fileBuffers (fold (fail_step p) ts st) = fileBuffers st \<and>
   peerConnections (fold (fail_step p) ts st) = peerConnections st"
  by (induction ts arbitrary: st) (simp_all add: fail_step_keeps)

lemma transfers_fold_fail_step:
  "transfers (fold (fail_step p) ts st) =
     map (\<lambda>t. if ft_id t \<in> failing_ids p ts
               then t\<lparr>ft_status := failed, ft_error := Some ''Peer disconnected''\<rparr> else t)
         (transfers st)"
proof (induction ts arbitrary: st)
  case Nil
  then show ?case by (simp add: failing_ids_def)
next
  case (Cons u us)
  have step: "transfers (fail_step p u st) =
      map (\<lambda>t. if ft_peerId u = p \<and> ft_status u = transferring \<and> ft_id t = ft_id u
                then t\<lparr>ft_status := failed, ft_error := Some ''Peer disconnected''\<rparr> else t)
          (transfers st)"
    by (auto simp: fail_step_def updateTransfer_def)
  have ids: "failing_ids p (u # us) =
      (if ft_peerId u = p \<and> ft_status u = transferring then {ft_id u} else {}) \<union> failing_ids p us"
    by (auto simp: failing_ids_def)
  show ?case
    by (auto simp: Cons.IH step ids)
qed

lemma transfers_handlePeerLeft:
  "transfers (handlePeerLeft p st) =
     map (\<lambda>t. if ft_id t \<in> failing_ids p (transfers st)
               then t\<lparr>ft_status := failed, ft_error := Some ''Peer disconnected''\<rparr> else t)
         (transfers st)"
  by (simp add: handlePeerLeft_fold transfers_fold_fail_step removePeerConnection_def)

lemma fileBuffers_handlePeerLeft: "fileBuffers (handlePeerLeft p st) = fileBuffers st"
  by (simp add: handlePeerLeft_fold fold_fail_step_keeps removePeerConnection_def)

lemma peerConnections_handlePeerLeft:
  "map_of (peerConnections (handlePeerLeft p st)) p = None"
  by (simp add: handlePeerLeft_fold fold_fail_step_keeps removePeerConnection_def delete_conv')

lemma chunk_accepted:
  assumes "fileBuffers st fid = Some buffer" and "atob chunkData = Some bytes"
  shows "fileBuffers (handleDataChannelMessage sender (Chunk fid i chunkData) now st) fid =
           Some (buffer\<lparr>fb_chunks := fb_chunks buffer @ [bytes],
                        fb_receivedSize := fb_receivedSize buffer + length bytes\<rparr>)"
    and "transfers (handleDataChannelMessage sender (Chunk fid i chunkData) now st) =
           map (\<lambda>t. if ft_id t = fid
                     then t\<lparr>ft_progress := progress_of (fb_receivedSize buffer + length bytes)
                                             (md_size (fb_metadata buffer))\<rparr>
                     else t) (transfers st)"
  using assms
  by (simp_all add: handleDataChannelMessage_def Let_def updateTransfer_def progress_of_def)

subsection \<open>Concrete receiver states\<close>

lemma atob_QUJD: "atob ''QUJD'' = Some [65, 66, 67]"
  using atob_btoa [of "[65, 66, 67]"] by (simp add: Let_def b64_def alphabet_def)

lemma peer_left_state:
  "transfers (handlePeerLeft ''a1'' (receiving 6)) =
     [\<lparr>ft_id = ''f'', ft_filename = ''f.bin'', ft_size = 6, ft_mime = ''application/octet-stream'',
       ft_progress = Num 0, ft_status = failed, ft_direction = receive, ft_peerId = ''a1'',
       ft_peerName = Some ''ann'', ft_chunks = Some [], ft_blob = None,
       ft_error = Some ''Peer disconnected'', ft_timestamp = 0\<rparr>]"
  "fileBuffers (handlePeerLeft ''a1'' (receiving 6)) ''f'' =
     Some \<lparr>fb_metadata = file_f 6, fb_chunks = [], fb_receivedSize = 0\<rparr>"
  by code_simp+

lemma receiving_buffer:
  "fileBuffers (receiving 6) ''f'' =
     Some \<lparr>fb_metadata = file_f 6, fb_chunks = [], fb_receivedSize = 0\<rparr>"
  by code_simp

lemma three: "Suc (Suc (Suc 0)) = 3"
  by simp

lemma progress_3_6: "progress_of 3 6 = Num 50"
  by code_simp

subsection \<open>C4: a peer leaves during a transfer\<close>

text \<open>
  C4 says that after \<open>peer-left\<close> no chunk message with the identifier of the failed
  transfer is accepted. The handler of \<open>peer-left\<close> removes the peer's link and marks the
  transfer, but it keeps the receive buffer, and the chunk handler looks for the buffer
  only, not at the status of the transfer or at the sender. A receiver of file \<open>f\<close> (6
  bytes, from \<open>a1\<close>) handles \<open>peer-left\<close> for \<open>a1\<close> and then a chunk for \<open>f\<close> that
  arrives on the channel of \<open>b2\<close>: the three bytes are buffered, the received size
  goes from 0 to 3 and the progress from 0 to 50.
\<close>

theorem chunk_after_peer_left:
  "map ft_status (transfers (handlePeerLeft ''a1'' (receiving 6))) = [failed] \<and>
   map ft_progress (transfers (handlePeerLeft ''a1'' (receiving 6))) = [Num 0] \<and>
   fileBuffers (handlePeerLeft ''a1'' (receiving 6)) ''f'' =
     Some \<lparr>fb_metadata = file_f 6, fb_chunks = [], fb_receivedSize = 0\<rparr> \<and>
   fileBuffers (handleDataChannelMessage ''b2'' (Chunk ''f'' 0 ''QUJD'') 1
                  (handlePeerLeft ''a1'' (receiving 6))) ''f'' =
     Some \<lparr>fb_metadata = file_f 6, fb_chunks = [[65, 66, 67]], fb_receivedSize = 3\<rparr> \<and>
   map ft_progress (transfers (handleDataChannelMessage ''b2'' (Chunk ''f'' 0 ''QUJD'') 1
                  (handlePeerLeft ''a1'' (receiving 6)))) = [Num 50]"
  using chunk_accepted [OF peer_left_state(2) atob_QUJD, of "''b2''" 0 1]
  by (simp add: peer_left_state progress_3_6 file_f_def three)

text \<open>
  C4, as the code has it: if a \<open>peer-left\<close> event for peer P arrives while a transfer
  whose peer is P has status \<open>transferring\<close>, the transfer stays in the list and its
  status becomes \<open>failed\<close>, with error \<open>Peer disconnected\<close>, and the link to P is removed
  from the store; the event changes no progress and no receive buffer. The chunk handler
  does not look at the status: while a buffer for the transfer's identifier exists, a
  chunk message with that identifier whose data decodes is appended to the buffer and
  counted, and the progress of the transfer is set from the new count, whoever sent it.
\<close>

theorem peer_left_fails_transfer:
  assumes "t \<in> set (transfers st)" and "ft_peerId t = p" and "ft_status t = transferring"
  shows "(\<exists>t' \<in> set (transfers (handlePeerLeft p st)). ft_id t' = ft_id t)
       \<and> (\<forall>t' \<in> set (transfers (handlePeerLeft p st)).
             ft_id t' = ft_id t \<longrightarrow>
               ft_status t' = failed \<and> ft_error t' = Some ''Peer disconnected'')
       \<and> map ft_progress (transfers (handlePeerLeft p st)) = map ft_progress (transfers st)
       \<and> fileBuffers (handlePeerLeft p st) = fileBuffers st
       \<and> map_of (peerConnections (handlePeerLeft p st)) p = None
       \<and> (\<forall>buffer bytes. fileBuffers st (ft_id t) = Some buffer \<and> atob chunkData = Some bytes \<longrightarrow>
            fileBuffers (handleDataChannelMessage sender (Chunk (ft_id t) i chunkData) now
                           (handlePeerLeft p st)) (ft_id t) =
              Some (buffer\<lparr>fb_chunks := fb_chunks buffer @ [bytes],
                           fb_receivedSize := fb_receivedSize buffer + length bytes\<rparr>) \<and>
            transfers (handleDataChannelMessage sender (Chunk (ft_id t) i chunkData) now
                         (handlePeerLeft p st)) =
              map (\<lambda>t'. if ft_id t' = ft_id t
                         then t'\<lparr>ft_progress := progress_of (fb_receivedSize buffer + length bytes)
                                                  (md_size (fb_metadata buffer))\<rparr>
                         else t')
                  (transfers (handlePeerLeft p st)))"
proof -
  have in_ids: "ft_id t \<in> failing_ids p (transfers st)"
    using assms by (auto simp: failing_ids_def)
  have "t\<lparr>ft_status := failed, ft_error := Some ''Peer disconnected''\<rparr>
          \<in> set (transfers (handlePeerLeft p st))"
    unfolding transfers_handlePeerLeft set_map using assms(1) in_ids by force
  then have c1: "\<exists>t' \<in> set (transfers (handlePeerLeft p st)). ft_id t' = ft_id t"
    by (rule rev_bexI) simp
  have c2: "\<forall>t' \<in> set (transfers (handlePeerLeft p st)).
             ft_id t' = ft_id t \<longrightarrow>
               ft_status t' = failed \<and> ft_error t' = Some ''Peer disconnected''"
    using in_ids by (auto simp: transfers_handlePeerLeft)
  have c3: "map ft_progress (transfers (handlePeerLeft p st)) = map ft_progress (transfers st)"
    by (simp add: transfers_handlePeerLeft)
  have c6: "\<forall>buffer bytes. fileBuffers st (ft_id t) = Some buffer \<and> atob chunkData = Some bytes \<longrightarrow>
            fileBuffers (handleDataChannelMessage sender (Chunk (ft_id t) i chunkData) now
                           (handlePeerLeft p st)) (ft_id t) =
              Some (buffer\<lparr>fb_chunks := fb_chunks buffer @ [bytes],
                           fb_receivedSize := fb_receivedSize buffer + length bytes\<rparr>) \<and>
            transfers (handleDataChannelMessage sender (Chunk (ft_id t) i chunkData) now
                         (handlePeerLeft p st)) =
              map (\<lambda>t'. if ft_id t' = ft_id t
                         then t'\<lparr>ft_progress := progress_of (fb_receivedSize buffer + length bytes)
                                                  (md_size (fb_metadata buffer))\<rparr>
                         else t')
                  (transfers (handlePeerLeft p st))"
    by (simp add: chunk_accepted fileBuffers_handlePeerLeft)
  show ?thesis
    using c1 c2 c3 c6 fileBuffers_handlePeerLeft [of p st] peerConnections_handlePeerLeft [of p st]
    by blast
qed

theorem peer_left_fails_transfer_witness:
  "hd (transfers (receiving 6)) \<in> set (transfers (receiving 6)) \<and>
   ft_peerId (hd (transfers (receiving 6))) = ''a1'' \<and>
   ft_status (hd (transfers (receiving 6))) = transferring \<and>
   ft_id (hd (transfers (receiving 6))) = ''f'' \<and>
   ft_status (hd (transfers (handlePeerLeft ''a1'' (receiving 6)))) = failed \<and>
   ft_error (hd (transfers (handlePeerLeft ''a1'' (receiving 6)))) = Some ''Peer disconnected'' \<and>
   map ft_progress (transfers (handlePeerLeft ''a1'' (receiving 6))) =
     map ft_progress (transfers (receiving 6)) \<and>
   fileBuffers (handlePeerLeft ''a1'' (receiving 6)) = fileBuffers (receiving 6) \<and>
   map_of (peerConnections (handlePeerLeft ''a1'' (receiving 6))) ''a1'' = None \<and>
   fileBuffers (receiving 6) ''f'' =
     Some \<lparr>fb_metadata = file_f 6, fb_chunks = [], fb_receivedSize = 0\<rparr> \<and>
   atob ''QUJD'' = Some [65, 66, 67] \<and>
   fileBuffers (handleDataChannelMessage ''a1'' (Chunk ''f'' 0 ''QUJD'') 1
                  (handlePeerLeft ''a1'' (receiving 6))) ''f'' =
     Some \<lparr>fb_metadata = file_f 6, fb_chunks = [[65, 66, 67]], fb_receivedSize = 3\<rparr> \<and>
   map ft_progress (transfers (handleDataChannelMessage ''a1'' (Chunk ''f'' 0 ''QUJD'') 1
                  (handlePeerLeft ''a1'' (receiving 6)))) = [Num 50] \<and>
   map ft_status (transfers (handleDataChannelMessage ''a1'' (Chunk ''f'' 0 ''QUJD'') 1
                  (handlePeerLeft ''a1'' (receiving 6)))) = [failed]"
proof -
  have h: "hd (transfers (receiving 6)) \<in> set (transfers (receiving 6))"
    "ft_peerId (hd (transfers (receiving 6))) = ''a1''"
    "ft_status (hd (transfers (receiving 6))) = transferring"
    "ft_id (hd (transfers (receiving 6))) = ''f''"
    by code_simp+
  have m: "hd (transfers (handlePeerLeft ''a1'' (receiving 6)))
             \<in> set (transfers (handlePeerLeft ''a1'' (receiving 6)))"
    "ft_id (hd (transfers (handlePeerLeft ''a1'' (receiving 6)))) = ''f''"
    by (simp_all add: peer_left_state)
  note th = peer_left_fails_transfer [OF h(1,2,3), where chunkData = "''QUJD''" and sender = "''a1''"
      and i = 0 and now = 1, unfolded h(4)]
  have a: "ft_status (hd (transfers (handlePeerLeft ''a1'' (receiving 6)))) = failed \<and>
           ft_error (hd (transfers (handlePeerLeft ''a1'' (receiving 6)))) = Some ''Peer disconnected''"
    using th m by blast
  have b: "map ft_progress (transfers (handlePeerLeft ''a1'' (receiving 6))) =
             map ft_progress (transfers (receiving 6))"
    "fileBuffers (handlePeerLeft ''a1'' (receiving 6)) = fileBuffers (receiving 6)"
    "map_of (peerConnections (handlePeerLeft ''a1'' (receiving 6))) ''a1'' = None"
    using th by blast+
  have c: "fileBuffers (handleDataChannelMessage ''a1'' (Chunk ''f'' 0 ''QUJD'') 1
                  (handlePeerLeft ''a1'' (receiving 6))) ''f'' =
             Some (\<lparr>fb_metadata = file_f 6, fb_chunks = [], fb_receivedSize = 0\<rparr>
                     \<lparr>fb_chunks := fb_chunks \<lparr>fb_metadata = file_f 6, fb_chunks = [], fb_receivedSize = 0\<rparr> @ [[65, 66, 67]],
                      fb_receivedSize := fb_receivedSize \<lparr>fb_metadata = file_f 6, fb_chunks = [], fb_receivedSize = 0\<rparr> + length [65 :: byte, 66, 67]\<rparr>)"
    "transfers (handleDataChannelMessage ''a1'' (Chunk ''f'' 0 ''QUJD'') 1
                         (handlePeerLeft ''a1'' (receiving 6))) =
              map (\<lambda>t'. if ft_id t' = ''f''
                         then t'\<lparr>ft_progress := progress_of (fb_receivedSize \<lparr>fb_metadata = file_f 6, fb_chunks = [], fb_receivedSize = 0\<rparr> + length [65 :: byte, 66, 67])
                                                  (md_size (fb_metadata \<lparr>fb_metadata = file_f 6, fb_chunks = [], fb_receivedSize = 0\<rparr>))\<rparr>
                         else t')
                  (transfers (handlePeerLeft ''a1'' (receiving 6)))"
    using th receiving_buffer atob_QUJD by blast+
  show ?thesis
    using a b h
    by (simp add: c receiving_buffer atob_QUJD peer_left_state(1) progress_3_6 file_f_def three)
qed

subsection \<open>Sending a file\<close>

lemma map_of_fold_map_entry:
  "distinct ts \<Longrightarrow>
   map_of (fold (\<lambda>p pcs. AList.map_entry p f pcs) ts pcs) k =
     (if k \<in> set ts then map_option f (map_of pcs k) else map_of pcs k)"
proof (induction ts arbitrary: pcs)
  case Nil
  then show ?case by simp
next
  case (Cons t ts)
  then show ?case by (auto simp: map_of_map_entry)
qed

lemma send_to_targets_open:
  assumes "chan_open q st" and "distinct ts" and "q \<in> set ts"
  shows "sent_to q (send_to_targets ts m st) = sent_to q st @ [m]"
    and "chan_open q (send_to_targets ts m st)"
  using assms
  by (auto simp: sent_to_def send_to_targets_def map_of_fold_map_entry dc_send_def chan_open_def)

lemma peerConnections_updateTransfer [simp]:
  "peerConnections (updateTransfer i f st) = peerConnections st"
  by (simp add: updateTransfer_def)

lemma sent_to_updateTransfer [simp]: "sent_to q (updateTransfer i f st) = sent_to q st"
  by (simp add: sent_to_def)

lemma chan_open_updateTransfer [simp]: "chan_open q (updateTransfer i f st) = chan_open q st"
  by (simp add: chan_open_def)

lemma sent_to_addTransfer [simp]: "sent_to q (addTransfer t st) = sent_to q st"
  by (simp add: sent_to_def addTransfer_def)

lemma chan_open_addTransfer [simp]: "chan_open q (addTransfer t st) = chan_open q st"
  by (simp add: chan_open_def addTransfer_def)

lemma send_chunk_open:
  assumes "chan_open q st" and "distinct ts" and "q \<in> set ts"
  shows "sent_to q (send_chunk bs fid ts n k st) =
           sent_to q st @ [Chunk fid k (btoa (take CHUNK_SIZE (drop n bs)))]"
    and "chan_open q (send_chunk bs fid ts n k st)"
  using send_to_targets_open [OF assms]
  by (simp_all add: send_chunk_def Let_def)

lemma sendChunks_sent:
  "chan_open q st \<Longrightarrow> distinct ts \<Longrightarrow> q \<in> set ts \<Longrightarrow>
   sent_to q (sendChunks bs fid ts n k st) = sent_to q st @ chunk_messages bs fid n k"
proof (induction bs fid ts n k st rule: sendChunks.induct)
  case (1 bs fileId ts offset chunkIndex st)
  let ?chunk = "take CHUNK_SIZE (drop offset bs)"
  let ?st2 = "send_chunk bs fileId ts offset chunkIndex st"
  have o2: "chan_open q ?st2"
    and s2: "sent_to q ?st2 = sent_to q st @ [Chunk fileId chunkIndex (btoa ?chunk)]"
    using send_chunk_open [OF "1.prems"] by simp_all
  show ?case
  proof (cases "offset + length ?chunk < length bs")
    case True
    have "sent_to q (sendChunks bs fileId ts (offset + length ?chunk) (chunkIndex + 1) ?st2)
        = sent_to q ?st2 @ chunk_messages bs fileId (offset + length ?chunk) (chunkIndex + 1)"
      using "1.IH" [OF refl refl refl True o2 "1.prems"(2,3)] .
    then show ?thesis
      using True s2
      by (subst sendChunks.simps, subst chunk_messages.simps) (simp add: Let_def)
  next
    case False
    from send_to_targets_open(1) [OF o2 "1.prems"(2,3)] False s2 show ?thesis
      by (subst sendChunks.simps, subst chunk_messages.simps) (simp add: Let_def)
  qed
qed

lemma sendFile_sent:
  assumes "chan_open q st"
    and "target = Some q \<and> q \<noteq> [] \<or> target = None \<and> distinct (map fst (peerConnections st))"
  shows "sent_to q (sendFile file target fid now st) =
     sent_to q st @
       FileStart \<lparr>md_id = fid, md_filename = f_name file, md_size = length (f_bytes file),
                  md_mime = (if f_type file = [] then ''application/octet-stream'' else f_type file),
                  md_senderId = (case st_peerId st of None \<Rightarrow> [] | Some p \<Rightarrow> p),
                  md_senderName = Some (st_username st)\<rparr>
       # chunk_messages (f_bytes file) fid 0 0"
proof -
  let ?md = "\<lparr>md_id = fid, md_filename = f_name file, md_size = length (f_bytes file),
                  md_mime = (if f_type file = [] then ''application/octet-stream'' else f_type file),
                  md_senderId = (case st_peerId st of None \<Rightarrow> [] | Some p \<Rightarrow> p),
                  md_senderName = Some (st_username st)\<rparr>"
  let ?ts = "if target = None then map fst (peerConnections st) else [q]"
  obtain pc where pc: "map_of (peerConnections st) q = Some pc"
    using assms(1) by (auto simp: chan_open_def)
  have d: "distinct ?ts" using assms(2) by auto
  have m: "q \<in> set ?ts" using pc by (auto dest: map_of_SomeD intro: rev_image_eqI)
  have ne: "?ts \<noteq> []" using m by auto
  obtain tr where sf: "sendFile file target fid now st =
      sendChunks (f_bytes file) fid ?ts 0 0 (send_to_targets ?ts (FileStart ?md) (addTransfer tr st))"
    using assms(2) pc ne by (auto simp: sendFile_def Let_def)
  have o1: "chan_open q (addTransfer tr st)" using assms(1) by simp
  show ?thesis
    unfolding sf
    using sendChunks_sent [OF send_to_targets_open(2) [OF o1 d m] d m]
      send_to_targets_open(1) [OF o1 d m]
    by simp
qed

lemma sender_ready_open: "chan_open ''b2'' sender_ready"
  by (simp add: chan_open_def sender_ready_def init_client_def open_channel_def)

subsection \<open>Receiving a file\<close>

lemma done_step:
  assumes "fileBuffers st fid = Some buffer"
  shows "fileBuffers (handleDataChannelMessage sender (Done fid) now st) fid = None"
    and "transfers (handleDataChannelMessage sender (Done fid) now st) =
           map (\<lambda>t. if ft_id t = fid
                     then t\<lparr>ft_status := completed, ft_progress := Num 100,
                            ft_blob := Some (concat (fb_chunks buffer))\<rparr>
                     else t) (transfers st)"
  using assms by (simp_all add: handleDataChannelMessage_def Let_def updateTransfer_def)

lemma ball_map_if:
  assumes "\<And>u. key u = i \<Longrightarrow> P (g u)"
  shows "\<forall>t \<in> set (map (\<lambda>t. if key t = i then g t else t) xs). key t = i \<longrightarrow> P t"
  using assms by (induction xs) auto

lemma done_blob:
  assumes "fileBuffers st fid = Some buffer" and "concat (fb_chunks buffer) = content"
  shows "\<forall>t \<in> set (transfers (handleDataChannelMessage sender (Done fid) now st)).
           ft_id t = fid \<longrightarrow>
             ft_blob t = Some content \<and> ft_status t = completed \<and> ft_progress t = Num 100"
  unfolding done_step(2) [OF assms(1)] by (rule ball_map_if) (simp add: assms(2))

lemma file_start_step:
  "fileBuffers (handleDataChannelMessage sender (FileStart md) now st) (md_id md) =
     Some \<lparr>fb_metadata = md, fb_chunks = [], fb_receivedSize = 0\<rparr>"
  "map ft_id (transfers (handleDataChannelMessage sender (FileStart md) now st)) =
     map ft_id (transfers st) @ [md_id md]"
  by (simp_all add: handleDataChannelMessage_def addTransfer_def)

lemma receive_all_Cons:
  "receive_all sender (m # ms) now st = receive_all sender ms now (handleDataChannelMessage sender m now st)"
  by (simp add: receive_all_def)

lemma receive_all_Nil: "receive_all sender [] now st = st"
  by (simp add: receive_all_def)

lemma chunk_rest:
  "take c (drop n bs) @ drop (n + length (take c (drop n bs))) bs = drop n bs"
proof -
  define ys where "ys = drop n bs"
  define m where "m = length (take c ys)"
  have a: "drop (n + m) bs = drop m ys"
    unfolding ys_def by (simp add: add.commute)
  have b: "take c ys @ drop m ys = ys"
  proof (cases "c \<le> length ys")
    case True
    then have "m = c" by (simp add: m_def)
    then show ?thesis by simp
  next
    case False
    then have "take c ys = ys" "m = length ys" by (simp_all add: m_def)
    then show ?thesis by simp
  qed
  have "take c ys @ drop (n + m) bs = ys"
    by (simp only: a b)
  then show ?thesis unfolding m_def ys_def .
qed

lemma receive_chunks:
  "fileBuffers rst fid = Some buffer \<Longrightarrow>
   fileBuffers (receive_all sender (chunk_messages bs fid n k) now rst) fid = None \<and>
   map ft_id (transfers (receive_all sender (chunk_messages bs fid n k) now rst)) =
     map ft_id (transfers rst) \<and>
   (\<forall>t \<in> set (transfers (receive_all sender (chunk_messages bs fid n k) now rst)).
      ft_id t = fid \<longrightarrow>
        ft_blob t = Some (concat (fb_chunks buffer) @ drop n bs) \<and>
        ft_status t = completed \<and> ft_progress t = Num 100)"
proof (induction bs fid n k arbitrary: rst buffer rule: chunk_messages.induct)
  case (1 bs fileId offset chunkIndex)
  let ?chunk = "take CHUNK_SIZE (drop offset bs)"
  let ?m = "Chunk fileId chunkIndex (btoa ?chunk)"
  let ?rst1 = "handleDataChannelMessage sender ?m now rst"
  let ?b1 = "buffer\<lparr>fb_chunks := fb_chunks buffer @ [?chunk],
                     fb_receivedSize := fb_receivedSize buffer + length ?chunk\<rparr>"
  have b1: "fileBuffers ?rst1 fileId = Some ?b1"
    using chunk_accepted(1) [OF "1.prems" atob_btoa] .
  have t1: "map ft_id (transfers ?rst1) = map ft_id (transfers rst)"
    unfolding chunk_accepted(2) [OF "1.prems" atob_btoa] by (simp add: comp_def)
  have cc: "concat (fb_chunks ?b1) @ drop (offset + length ?chunk) bs
              = concat (fb_chunks buffer) @ drop offset bs"
    using chunk_rest [of CHUNK_SIZE offset bs] by simp
  show ?case
  proof (cases "offset + length ?chunk < length bs")
    case True
    have ms: "chunk_messages bs fileId offset chunkIndex =
        ?m # chunk_messages bs fileId (offset + length ?chunk) (chunkIndex + 1)"
      by (subst chunk_messages.simps) (simp only: Let_def True if_True)
    show ?thesis
      unfolding ms receive_all_Cons
      using "1.IH" [OF refl refl True b1] t1 cc by simp
  next
    case False
    have ms: "chunk_messages bs fileId offset chunkIndex = [?m, Done fileId]"
      by (subst chunk_messages.simps) (simp only: Let_def False if_False)
    have "drop (offset + length ?chunk) bs = []" using False by simp
    with cc have cc': "concat (fb_chunks ?b1) = concat (fb_chunks buffer) @ drop offset bs"
      by simp
    let ?D = "handleDataChannelMessage sender (Done fileId) now ?rst1"
    have fin: "receive_all sender (chunk_messages bs fileId offset chunkIndex) now rst = ?D"
      unfolding ms by (simp add: receive_all_def)
    have c1: "fileBuffers ?D fileId = None"
      by (rule done_step(1) [OF b1])
    have "map ft_id (transfers ?D) = map ft_id (transfers ?rst1)"
      unfolding done_step(2) [OF b1] by (simp add: comp_def)
    with t1 have c2: "map ft_id (transfers ?D) = map ft_id (transfers rst)"
      by simp
    have c3: "\<forall>t \<in> set (transfers ?D). ft_id t = fileId \<longrightarrow>
        ft_blob t = Some (concat (fb_chunks buffer) @ drop offset bs) \<and>
        ft_status t = completed \<and> ft_progress t = Num 100"
      by (rule done_blob [OF b1 cc'])
    show ?thesis
      unfolding fin by (intro conjI c1 c2 c3)
  qed
qed

subsection \<open>C5: what is sent is what is received\<close>

text \<open>
  C5: a file is sent to a peer whose data channel is open, either to that peer alone or
  to all peers of the store (whose keys are distinct, as the keys of a map are). The
  messages \<open>sendFile\<close> appends to that channel are the \<open>file-start\<close> message, one chunk
  message for each slice of 64 KiB in the order of the file, and \<open>done\<close>. Whatever
  state the receiver is in, when it handles these messages in that order the receive
  buffer of the transfer is released, a transfer with that identifier exists, and every
  transfer with that identifier is completed with a blob equal to the bytes of the file.
\<close>

theorem file_round_trip:
  assumes "chan_open q st"
    and "target = Some q \<and> q \<noteq> [] \<or> target = None \<and> distinct (map fst (peerConnections st))"
  shows "\<exists>ms. sent_to q (sendFile file target fid now st) = sent_to q st @ ms \<and>
      (\<forall>rst. fileBuffers (receive_all sender ms now' rst) fid = None \<and>
         (\<exists>t \<in> set (transfers (receive_all sender ms now' rst)). ft_id t = fid) \<and>
         (\<forall>t \<in> set (transfers (receive_all sender ms now' rst)).
            ft_id t = fid \<longrightarrow> ft_blob t = Some (f_bytes file) \<and> ft_status t = completed))"
proof -
  let ?md = "\<lparr>md_id = fid, md_filename = f_name file, md_size = length (f_bytes file),
                  md_mime = (if f_type file = [] then ''application/octet-stream'' else f_type file),
                  md_senderId = (case st_peerId st of None \<Rightarrow> [] | Some p \<Rightarrow> p),
                  md_senderName = Some (st_username st)\<rparr>"
  let ?ms = "FileStart ?md # chunk_messages (f_bytes file) fid 0 0"
  have sent: "sent_to q (sendFile file target fid now st) = sent_to q st @ ?ms"
    by (rule sendFile_sent [OF assms])
  have recv: "fileBuffers (receive_all sender ?ms now' rst) fid = None \<and>
         (\<exists>t \<in> set (transfers (receive_all sender ?ms now' rst)). ft_id t = fid) \<and>
         (\<forall>t \<in> set (transfers (receive_all sender ?ms now' rst)).
            ft_id t = fid \<longrightarrow> ft_blob t = Some (f_bytes file) \<and> ft_status t = completed)" for rst
  proof -
    let ?r1 = "handleDataChannelMessage sender (FileStart ?md) now' rst"
    have b: "fileBuffers ?r1 fid = Some \<lparr>fb_metadata = ?md, fb_chunks = [], fb_receivedSize = 0\<rparr>"
      using file_start_step(1) [of sender ?md now' rst] by simp
    have ids: "map ft_id (transfers ?r1) = map ft_id (transfers rst) @ [fid]"
      using file_start_step(2) [of sender ?md now' rst] by simp
    note rc = receive_chunks [OF b, of sender "f_bytes file" 0 0 now']
    have "fid \<in> set (map ft_id (transfers (receive_all sender ?ms now' rst)))"
      unfolding receive_all_Cons using rc ids by simp
    then have ex: "\<exists>t \<in> set (transfers (receive_all sender ?ms now' rst)). ft_id t = fid"
      by auto
    show ?thesis
      using rc ex unfolding receive_all_Cons by simp
  qed
  show ?thesis using sent recv by blast
qed

theorem file_round_trip_witness:
  "chan_open ''b2'' sender_ready \<and> ''b2'' \<noteq> [] \<and>
   (\<exists>ms. sent_to ''b2'' (sendFile small_file (Some ''b2'') ''f1'' 0 sender_ready) =
            sent_to ''b2'' sender_ready @ ms \<and>
         fileBuffers (receive_all ''a1'' ms 1 init_client) ''f1'' = None \<and>
         (\<exists>t. t \<in> set (transfers (receive_all ''a1'' ms 1 init_client)) \<and> ft_id t = ''f1'' \<and>
              ft_blob t = Some (f_bytes small_file) \<and> ft_status t = completed))"
proof -
  have g: "Some ''b2'' = Some ''b2'' \<and> ''b2'' \<noteq> [] \<or>
           Some ''b2'' = None \<and> distinct (map fst (peerConnections sender_ready))"
    by simp
  have ne: "''b2'' \<noteq> []" by simp
  from file_round_trip [OF sender_ready_open g, of small_file "''f1''" 0 "''a1''" 1]
  obtain ms where
    s: "sent_to ''b2'' (sendFile small_file (Some ''b2'') ''f1'' 0 sender_ready) =
          sent_to ''b2'' sender_ready @ ms"
    and r: "fileBuffers (receive_all ''a1'' ms 1 init_client) ''f1'' = None"
      "\<exists>t \<in> set (transfers (receive_all ''a1'' ms 1 init_client)). ft_id t = ''f1''"
      "\<forall>t \<in> set (transfers (receive_all ''a1'' ms 1 init_client)).
         ft_id t = ''f1'' \<longrightarrow> ft_blob t = Some (f_bytes small_file) \<and> ft_status t = completed"
    by blast
  from r(2,3) have "\<exists>t. t \<in> set (transfers (receive_all ''a1'' ms 1 init_client)) \<and> ft_id t = ''f1'' \<and>
              ft_blob t = Some (f_bytes small_file) \<and> ft_status t = completed"
    by blast
  with s r(1) sender_ready_open ne show ?thesis by blast
qed

subsection \<open>Progress\<close>

lemma fl64_1: "fl64 1 = 1" and fl64_100: "fl64 100 = 100"
  by code_simp+

lemma round_100: "Math_round (Num 100) = Num 100"
  by code_simp

lemma progress_complete:
  assumes "0 < totalSize"
  shows "progress_of totalSize totalSize = Num 100"
proof -
  have "js_div totalSize totalSize = Num 1"
    using assms by (simp add: js_div_def fl64_1)
  moreover have "js_times100 (Num 1) = Num 100"
    by (simp add: js_times100_def fl64_100)
  ultimately show ?thesis
    by (simp only: progress_of_def round_100)
qed

lemma Math_round_nearest:
  "Math_round (Num v) = Num (of_int z) \<longleftrightarrow> of_int z - 1 / 2 \<le> v \<and> v < of_int z + 1 / 2"
proof -
  have "Math_round (Num v) = Num (of_int z) \<longleftrightarrow> \<lfloor>v + 1 / 2\<rfloor> = z"
    by (simp add: Math_round_def)
  also have "\<dots> \<longleftrightarrow> of_int z \<le> v + 1 / 2 \<and> v + 1 / 2 < of_int z + 1"
    by (rule floor_eq_iff)
  also have "of_int z \<le> v + 1 / 2 \<longleftrightarrow> of_int z - 1 / 2 \<le> v"
    by (rule iffI; linarith)
  also have "v + 1 / 2 < of_int z + 1 \<longleftrightarrow> v < of_int z + 1 / 2"
    by (rule iffI; linarith)
  finally show ?thesis .
qed

lemma transfers_send_to_targets [simp]: "transfers (send_to_targets ts m st) = transfers st"
  by (simp add: send_to_targets_def)

lemma send_chunk_progress:
  "\<forall>t \<in> set (transfers (send_chunk bs fid ts n k st)).
     ft_id t = fid \<longrightarrow>
       ft_progress t = Math_round (js_times100 (js_div (n + length (take CHUNK_SIZE (drop n bs))) (length bs)))"
proof -
  have "transfers (send_chunk bs fid ts n k st) =
      map (\<lambda>t. if ft_id t = fid
                then t\<lparr>ft_progress := Math_round (js_times100
                         (js_div (n + length (take CHUNK_SIZE (drop n bs))) (length bs)))\<rparr>
                else t) (transfers st)"
    by (simp only: send_chunk_def Let_def updateTransfer_def transfers_send_to_targets)
       simp
  then show ?thesis by (simp only:) (rule ball_map_if, simp)
qed

lemma chunk_progress:
  assumes "fileBuffers st fid = Some buffer" and "atob chunkData = Some bytes"
  shows "\<forall>t \<in> set (transfers (handleDataChannelMessage sender (Chunk fid i chunkData) now st)).
     ft_id t = fid \<longrightarrow>
       ft_progress t = Math_round (js_times100
          (js_div (fb_receivedSize buffer + length bytes) (md_size (fb_metadata buffer))))"
  unfolding chunk_accepted(2) [OF assms] progress_of_def
  by (rule ball_map_if) simp

lemma received_chunks_Suc:
  "received_chunks n (Suc k) =
     handleDataChannelMessage ''a1'' (Chunk ''f'' k zero_chunk) 1 (received_chunks n k)"
  by (simp add: received_chunks_def receive_all_def)

lemma receiving_state:
  "fileBuffers (receiving n) ''f'' =
     Some \<lparr>fb_metadata = file_f n, fb_chunks = [], fb_receivedSize = 0\<rparr>"
  "map ft_id (transfers (receiving n)) = [''f'']"
  by (simp_all add: receiving_def handleDataChannelMessage_def addTransfer_def file_f_def
      init_client_def)

lemma atob_zero_chunk: "atob zero_chunk = Some (replicate CHUNK_SIZE 0)"
  by (simp add: zero_chunk_def atob_btoa)

lemma received_chunks_state:
  "fileBuffers (received_chunks n k) ''f'' =
     Some \<lparr>fb_metadata = file_f n, fb_chunks = replicate k (replicate CHUNK_SIZE 0),
           fb_receivedSize = k * CHUNK_SIZE\<rparr> \<and>
   map ft_id (transfers (received_chunks n k)) = [''f'']"
proof (induction k)
  case 0
  then show ?case
    by (simp add: received_chunks_def receive_all_def receiving_state)
next
  case (Suc k)
  then have b: "fileBuffers (received_chunks n k) ''f'' =
     Some \<lparr>fb_metadata = file_f n, fb_chunks = replicate k (replicate CHUNK_SIZE 0),
           fb_receivedSize = k * CHUNK_SIZE\<rparr>"
    and i: "map ft_id (transfers (received_chunks n k)) = [''f'']"
    by simp_all
  have "map ft_id (transfers (received_chunks n (Suc k))) = map ft_id (transfers (received_chunks n k))"
    unfolding received_chunks_Suc chunk_accepted(2) [OF b atob_zero_chunk]
    by (simp add: comp_def)
  then show ?case
    using chunk_accepted(1) [OF b atob_zero_chunk, of "''a1''" k 1] i
    by (simp add: received_chunks_Suc replicate_append_same)
qed

lemma single_progress:
  assumes "map ft_id ts = [i]"
  shows "map ft_progress (map (\<lambda>t. if ft_id t = i then t\<lparr>ft_progress := p\<rparr> else t) ts) = [p]"
proof -
  from assms obtain t where "ts = [t]" "ft_id t = i" by (cases ts) auto
  then show ?thesis by simp
qed

lemma received_chunks_progress:
  "map ft_progress (transfers (received_chunks n (Suc k))) = [progress_of (Suc k * CHUNK_SIZE) n]"
proof -
  from received_chunks_state [of n k]
  have b: "fileBuffers (received_chunks n k) ''f'' =
     Some \<lparr>fb_metadata = file_f n, fb_chunks = replicate k (replicate CHUNK_SIZE 0),
           fb_receivedSize = k * CHUNK_SIZE\<rparr>"
    and i: "map ft_id (transfers (received_chunks n k)) = [''f'']"
    by simp_all
  show ?thesis
    unfolding received_chunks_Suc chunk_accepted(2) [OF b atob_zero_chunk]
    using single_progress [OF i] by (simp add: file_f_def add.commute)
qed

lemma received_chunks_sizes:
  "map_option fb_receivedSize (fileBuffers (received_chunks n k) ''f'') = Some (k * CHUNK_SIZE)"
  "map_option (md_size \<circ> fb_metadata) (fileBuffers (received_chunks n k) ''f'') = Some n"
  using received_chunks_state [of n k] by (simp_all add: file_f_def)

lemma ids_kept:
  "map ft_id (map (\<lambda>t. if ft_id t = i then t\<lparr>ft_progress := p\<rparr> else t) ts) = map ft_id ts"
  by (simp add: comp_def)

lemma progress_values:
  "progress_of 131072 196608 = Num 67"
  "progress_of 65536 65792 = Num 100"
proof -
  have "progress_of 131072 196608 = progress_of 2 3" "progress_of 65536 65792 = progress_of 256 257"
    by (simp_all add: progress_of_def js_div_def)
  moreover have "progress_of 2 3 = Num 67" "progress_of 256 257 = Num 100"
    by code_simp+
  ultimately show "progress_of 131072 196608 = Num 67" "progress_of 65536 65792 = Num 100"
    by simp_all
qed

lemma floor_values:
  "floor_progress 131072 196608 = 66" "floor_progress 65536 65792 = 99"
  by (simp_all add: floor_progress_def floor_eq_iff)

subsection \<open>C3: the progress that is reported\<close>

text \<open>
  C3 says that the progress of a chunk event is \<open>floor(bytes / size * 100)\<close> and that
  the receiver reports 100 only after the final chunk. The code computes
  \<^verbatim>\<open>Math.round((bytes / size) * 100)\<close>. After two chunks of a file of three chunks
  (196608 bytes) the receiver reports 67, where the floor is 66; and after the first
  chunk of a file of 65792 bytes it reports 100 (the floor is 99) although 256 bytes,
  the final chunk, are still to come.
\<close>

theorem progress_not_floor:
  "map_option fb_receivedSize (fileBuffers (received_chunks 196608 2) ''f'') = Some 131072 \<and>
   map ft_progress (transfers (received_chunks 196608 2)) = [Num 67] \<and>
   floor_progress 131072 196608 = 66 \<and>
   map_option (md_size \<circ> fb_metadata) (fileBuffers (received_chunks 65792 1) ''f'') = Some 65792 \<and>
   map_option fb_receivedSize (fileBuffers (received_chunks 65792 1) ''f'') = Some 65536 \<and>
   map ft_progress (transfers (received_chunks 65792 1)) = [Num 100] \<and>
   floor_progress 65536 65792 = 99"
proof -
  have c: "Suc 1 * CHUNK_SIZE = 131072" "Suc 0 * CHUNK_SIZE = 65536"
    "2 * CHUNK_SIZE = 131072" "1 * CHUNK_SIZE = 65536"
    by (simp_all add: CHUNK_SIZE_def)
  have "(2::nat) = Suc 1" by simp
  then have "received_chunks 196608 2 = received_chunks 196608 (Suc 1)" by (rule arg_cong)
  then have p1: "map ft_progress (transfers (received_chunks 196608 2)) = [Num 67]"
    by (simp only: received_chunks_progress c progress_values)
  have "(1::nat) = Suc 0" by simp
  then have "received_chunks 65792 1 = received_chunks 65792 (Suc 0)" by (rule arg_cong)
  then have p2: "map ft_progress (transfers (received_chunks 65792 1)) = [Num 100]"
    by (simp only: received_chunks_progress c progress_values)
  have s1: "map_option fb_receivedSize (fileBuffers (received_chunks 196608 2) ''f'') = Some 131072"
    by (simp only: received_chunks_sizes c)
  have s2: "map_option fb_receivedSize (fileBuffers (received_chunks 65792 1) ''f'') = Some 65536"
    by (simp only: received_chunks_sizes c)
  show ?thesis
    by (intro conjI p1 p2 s1 s2 floor_values received_chunks_sizes)
qed

text \<open>
  C3, as the code has it: at every chunk event the progress stored in the transfer is
  \<^verbatim>\<open>Math.round((bytes / size) * 100)\<close>, with the received bytes and the declared
  size on the receiving side and the bytes sent and the file size on the sending side;
  \<^verbatim>\<open>Math.round\<close> gives the integer nearest to its argument, a half going up. When
  all bytes of a non-empty file have been counted the value is 100 (it may be 100
  earlier).
\<close>

theorem progress_is_rounded:
  "(fileBuffers st fid = Some buffer \<and> atob chunkData = Some bytes \<longrightarrow>
      (\<forall>t \<in> set (transfers (handleDataChannelMessage sender (Chunk fid i chunkData) now st)).
         ft_id t = fid \<longrightarrow>
           ft_progress t = Math_round (js_times100
              (js_div (fb_receivedSize buffer + length bytes) (md_size (fb_metadata buffer)))))) \<and>
   (\<forall>t \<in> set (transfers (send_chunk bs fid ts n k st')).
      ft_id t = fid \<longrightarrow>
        ft_progress t = Math_round (js_times100
           (js_div (n + length (take CHUNK_SIZE (drop n bs))) (length bs)))) \<and>
   (Math_round (Num v) = Num (of_int z) \<longleftrightarrow> of_int z - 1 / 2 \<le> v \<and> v < of_int z + 1 / 2) \<and>
   (0 < totalSize \<longrightarrow> Math_round (js_times100 (js_div totalSize totalSize)) = Num 100)"
  using chunk_progress [of st fid buffer chunkData bytes sender i now]
    send_chunk_progress [of bs fid ts n k st'] Math_round_nearest [of v z]
    progress_complete [of totalSize]
  by (simp add: progress_of_def)

theorem progress_is_rounded_witness:
  "fileBuffers (receiving 6) ''f'' =
     Some \<lparr>fb_metadata = file_f 6, fb_chunks = [], fb_receivedSize = 0\<rparr> \<and>
   atob ''QUJD'' = Some [65, 66, 67] \<and>
   ft_progress (hd (transfers (handleDataChannelMessage ''a1'' (Chunk ''f'' 0 ''QUJD'') 1
                                 (receiving 6)))) = Num 50 \<and>
   (0::nat) < 6 \<and> Math_round (js_times100 (js_div 6 6)) = Num 100"
proof -
  let ?H = "handleDataChannelMessage ''a1'' (Chunk ''f'' 0 ''QUJD'') 1 (receiving 6)"
  note b = receiving_state(1) [of 6]
  have "map ft_id (transfers ?H) = [''f'']"
    unfolding chunk_accepted(2) [OF b atob_QUJD] ids_kept by (rule receiving_state(2))
  then obtain t where t: "transfers ?H = [t]" "ft_id t = ''f''"
    by (cases "transfers ?H") auto
  then have m: "hd (transfers ?H) \<in> set (transfers ?H)" "ft_id (hd (transfers ?H)) = ''f''"
    by simp_all
  from progress_is_rounded [where st = "receiving 6" and fid = "''f''"
      and buffer = "\<lparr>fb_metadata = file_f 6, fb_chunks = [], fb_receivedSize = 0\<rparr>"
      and chunkData = "''QUJD''" and bytes = "[65, 66, 67]" and sender = "''a1''"
      and i = 0 and now = 1 and totalSize = 6] b atob_QUJD m
  have "ft_progress (hd (transfers ?H)) = Math_round (js_times100 (js_div (0 + length [65, 66, 67 :: byte]) (md_size (fb_metadata \<lparr>fb_metadata = file_f 6, fb_chunks = [], fb_receivedSize = 0\<rparr>))))"
    and "Math_round (js_times100 (js_div 6 6)) = Num 100"
    by simp_all
  then show ?thesis
    using b atob_QUJD progress_3_6 by (simp add: file_f_def progress_of_def three)
qed

end
